theory Spec2Isabelle
  imports Main "HOL-Library.Word" "HOL-Library.Multiset"
begin

unbundle bit_operations_syntax

section \<open>JavaScript strings and numbers\<close>

text \<open>
  Strings are \<open>char list\<close>, read as ASCII text. An optional field of an interface
  (\<open>ip?: string\<close>) is an \<open>option\<close>; JavaScript truthiness of such a field is written out: \<open>undefined\<close>, the
  empty string and the number 0 are falsy. Numbers that the simulator only compares,
  increments or prints (TTL, VLAN ids, ports, rule orders) are \<open>int\<close>; the 32-bit
  results of the bitwise operators are \<open>32 word\<close>.
\<close>

definition truthy_str :: "string option \<Rightarrow> bool" where
  "truthy_str s = (case s of None \<Rightarrow> False | Some v \<Rightarrow> v \<noteq> [])"

definition truthy_num :: "int option \<Rightarrow> bool" where
  "truthy_num n = (case n of None \<Rightarrow> False | Some v \<Rightarrow> v \<noteq> 0)"

text \<open>\<open>String.prototype.toUpperCase\<close> on the ASCII letters.\<close>

definition upper_char :: "char \<Rightarrow> char" where
  "upper_char c =
     (let n = (of_char c :: nat) in if 97 \<le> n \<and> n \<le> 122 then char_of (n - 32) else c)"

definition toUpperCase :: "string \<Rightarrow> string" where
  "toUpperCase s = map upper_char s"

text \<open>\<open>s.split(sep)\<close> for a one-character separator: never the empty list.\<close>

fun str_split :: "char \<Rightarrow> string \<Rightarrow> string list" where
  "str_split sep [] = [[]]"
| "str_split sep (c # cs) =
     (if c = sep then [] # str_split sep cs
      else (case str_split sep cs of
              [] \<Rightarrow> [[c]]
            | r # rs \<Rightarrow> (c # r) # rs))"

text \<open>\<open>xs[i]\<close> on an array: \<open>undefined\<close> out of range.\<close>

definition js_nth :: "'a list \<Rightarrow> nat \<Rightarrow> 'a option" where
  "js_nth xs i = (if i < length xs then Some (xs ! i) else None)"

definition includes_char :: "string \<Rightarrow> char \<Rightarrow> bool" where
  "includes_char s c = (c \<in> set s)"

text \<open>
  The value of a character as a digit (\<open>0-9\<close>, \<open>a-z\<close>, \<open>A-Z\<close>), and \<open>parseInt(s, radix)\<close>:
  leading white space, an optional sign, for radix 16 an optional \<open>0x\<close>, then the
  longest run of digits below the radix; \<open>None\<close> is NaN. \<open>parseInt(undefined, r)\<close> is
  NaN for the radixes used here, 10 and 16.
\<close>

definition digit_val :: "char \<Rightarrow> nat option" where
  "digit_val c =
     (let n = (of_char c :: nat) in
      if 48 \<le> n \<and> n \<le> 57 then Some (n - 48)
      else if 97 \<le> n \<and> n \<le> 122 then Some (n - 87)
      else if 65 \<le> n \<and> n \<le> 90 then Some (n - 55)
      else None)"

definition is_digit :: "nat \<Rightarrow> char \<Rightarrow> bool" where
  "is_digit radix c = (case digit_val c of None \<Rightarrow> False | Some d \<Rightarrow> d < radix)"

definition digits_value :: "nat \<Rightarrow> string \<Rightarrow> int" where
  "digits_value radix ds =
     foldl (\<lambda>acc c. acc * int radix + int (the (digit_val c))) 0 ds"

definition is_space :: "char \<Rightarrow> bool" where
  "is_space c =
     (c = CHR '' '' \<or> c = CHR 0x09 \<or> c = CHR 0x0A \<or> c = CHR 0x0B \<or> c = CHR 0x0C \<or>
      c = CHR 0x0D)"

definition parseInt_str :: "nat \<Rightarrow> string \<Rightarrow> int option" where
  "parseInt_str radix s =
     (let t = dropWhile is_space s;
          neg = (t \<noteq> [] \<and> hd t = CHR ''-'');
          u = (if t \<noteq> [] \<and> (hd t = CHR ''-'' \<or> hd t = CHR ''+'') then tl t else t);
          w = (if radix = 16 \<and> (take 2 u = ''0x'' \<or> take 2 u = ''0X'') then drop 2 u else u);
          ds = takeWhile (is_digit radix) w
      in if ds = [] then None
         else Some (if neg then - digits_value radix ds else digits_value radix ds))"

definition parseInt :: "nat \<Rightarrow> string option \<Rightarrow> int option" where
  "parseInt radix s = (case s of None \<Rightarrow> None | Some v \<Rightarrow> parseInt_str radix v)"

text \<open>
  A JavaScript number as far as the simulator's arithmetic on addresses needs it: NaN,
  an infinity with its sign, or a finite double, kept as a signed mantissa \<open>m\<close> and a
  binary exponent \<open>e\<close> with the value \<open>m * 2 ^ e\<close> (the sign of a zero is not kept).
\<close>

datatype js_number = NaN | Infinite bool | Finite int int

function bit_length :: "int \<Rightarrow> int" where
  "bit_length n = (if n \<le> 0 then 0 else 1 + bit_length (n div 2))"
  by pat_completeness auto

termination
  by (relation "measure nat") auto

declare bit_length.simps [simp del]

text \<open>
  The double nearest to the positive fraction \<open>n / d\<close>, ties to the even mantissa: the
  mantissa has at most 53 bits, the exponent of its last bit is at least \<open>-1074\<close>, and a
  value that rounds to \<open>2 ^ 1024\<close> or more has no finite double (\<open>None\<close>).
\<close>

definition round_to_double :: "int \<Rightarrow> int \<Rightarrow> (int \<times> int) option" where
  "round_to_double n d =
     (let l = bit_length n - bit_length d;
          above = (if 0 \<le> l then d * 2 ^ nat l \<le> n else d \<le> n * 2 ^ nat (- l));
          fl = (if above then l else l - 1);
          e = max (fl - 52) (- 1074);
          num = (if 0 \<le> e then n else n * 2 ^ nat (- e));
          den = (if 0 \<le> e then d * 2 ^ nat e else d);
          q0 = num div den;
          r = num mod den;
          q = (if den < 2 * r \<or> (2 * r = den \<and> odd q0) then q0 + 1 else q0)
      in if 971 < e \<or> (e = 971 \<and> q = 2 ^ 53) then None else Some (q, e))"

definition number_of_fraction :: "bool \<Rightarrow> int \<Rightarrow> int \<Rightarrow> js_number" where
  "number_of_fraction neg n d =
     (if n = 0 then Finite 0 0
      else (case round_to_double n d of
              None \<Rightarrow> Infinite neg
            | Some (q, e) \<Rightarrow> Finite (if neg then - q else q) e))"

text \<open>
  \<open>Number(s)\<close>, the conversion of a string to a number. White space around the text is
  dropped and the empty text is 0. The text is then a binary, octal or hexadecimal
  integer (\<open>0b\<close>, \<open>0o\<close>, \<open>0x\<close>, without sign), or an optional sign followed by
  \<open>Infinity\<close> or by a decimal numeral: digits with an optional point and fraction, or a
  point and a fraction, and an optional exponent \<open>e\<close> with a signed integer. Anything
  else is NaN. The value is rounded to the nearest double.
\<close>

definition str_trim :: "string \<Rightarrow> string" where
  "str_trim s = rev (dropWhile is_space (rev (dropWhile is_space s)))"

definition non_decimal_literal :: "string \<Rightarrow> int option" where
  "non_decimal_literal t =
     (case t of
        c0 # c1 # ds \<Rightarrow>
          (let radix = (if c1 = CHR ''x'' \<or> c1 = CHR ''X'' then 16
                        else if c1 = CHR ''o'' \<or> c1 = CHR ''O'' then 8
                        else if c1 = CHR ''b'' \<or> c1 = CHR ''B'' then 2
                        else 0 :: nat)
           in if c0 = CHR ''0'' \<and> radix \<noteq> 0 \<and> ds \<noteq> [] \<and> list_all (is_digit radix) ds
              then Some (digits_value radix ds) else None)
      | _ \<Rightarrow> None)"

text \<open>The exponent part of a decimal numeral: absent, or \<open>e\<close> and a signed integer.\<close>

definition exponent_part :: "string \<Rightarrow> int option" where
  "exponent_part s =
     (case s of
        [] \<Rightarrow> Some 0
      | c # t \<Rightarrow>
          if c = CHR ''e'' \<or> c = CHR ''E''
          then (let neg = (t \<noteq> [] \<and> hd t = CHR ''-'');
                    ds = (if t \<noteq> [] \<and> (hd t = CHR ''-'' \<or> hd t = CHR ''+'') then tl t else t)
                in if ds \<noteq> [] \<and> list_all (is_digit 10) ds
                   then Some (if neg then - digits_value 10 ds else digits_value 10 ds)
                   else None)
          else None)"

text \<open>An unsigned decimal numeral as a fraction \<open>n / d\<close>.\<close>

definition unsigned_decimal :: "string \<Rightarrow> (int \<times> int) option" where
  "unsigned_decimal u =
     (let ip = takeWhile (is_digit 10) u;
          rest = dropWhile (is_digit 10) u;
          dot = (rest \<noteq> [] \<and> hd rest = CHR ''.'');
          fp = (if dot then takeWhile (is_digit 10) (tl rest) else []);
          rest2 = (if dot then dropWhile (is_digit 10) (tl rest) else rest)
      in if ip = [] \<and> fp = [] then None
         else (case exponent_part rest2 of
                 None \<Rightarrow> None
               | Some x \<Rightarrow>
                   (let m = digits_value 10 (ip @ fp);
                        k = x - int (length fp)
                    in if 0 \<le> k then Some (m * 10 ^ nat k, 1) else Some (m, 10 ^ nat (- k)))))"

definition Number_js :: "string \<Rightarrow> js_number" where
  "Number_js s =
     (let t = str_trim s in
      if t = [] then Finite 0 0
      else (case non_decimal_literal t of
              Some n \<Rightarrow> number_of_fraction False n 1
            | None \<Rightarrow>
                (let neg = (hd t = CHR ''-'');
                     u = (if hd t = CHR ''-'' \<or> hd t = CHR ''+'' then tl t else t)
                 in if u = ''Infinity'' then Infinite neg
                    else (case unsigned_decimal u of
                            None \<Rightarrow> NaN
                          | Some (n, d) \<Rightarrow> number_of_fraction neg n d))))"

text \<open>Printing a number inside a template string.\<close>

fun show_nat :: "nat \<Rightarrow> string" where
  "show_nat n =
     (if n < 10 then [char_of (48 + n)]
      else show_nat (n div 10) @ [char_of (48 + n mod 10)])"

definition show_int :: "int \<Rightarrow> string" where
  "show_int i = (if i < 0 then CHR ''-'' # show_nat (nat (- i)) else show_nat (nat i))"

text \<open>
  \<open>ToInt32\<close>. Of the result of \<open>parseInt\<close>: NaN becomes 0. Of a number: NaN and the
  infinities become 0, a finite value is cut to its integer part towards zero and taken
  modulo \<open>2 ^ 32\<close>.
\<close>

definition to_int32 :: "int option \<Rightarrow> 32 word" where
  "to_int32 n = (case n of None \<Rightarrow> 0 | Some v \<Rightarrow> word_of_int v)"

definition number_to_int32 :: "js_number \<Rightarrow> 32 word" where
  "number_to_int32 x =
     (case x of
        NaN \<Rightarrow> 0
      | Infinite neg \<Rightarrow> 0
      | Finite m e \<Rightarrow>
          word_of_int (if 0 \<le> e then m * 2 ^ nat e
                       else sgn m * (\<bar>m\<bar> div 2 ^ nat (- e))))"

section \<open>Core types of the simulator\<close>

datatype Proto = tcp | udp | icmp | arp | other

fun proto_str :: "Proto \<Rightarrow> string" where
  "proto_str tcp = ''tcp''"
| "proto_str udp = ''udp''"
| "proto_str icmp = ''icmp''"
| "proto_str arp = ''arp''"
| "proto_str other = ''other''"

record Packet =
  p_id :: string
  p_srcMac :: string
  p_dstMac :: string
  p_srcIp :: "string option"
  p_dstIp :: "string option"
  p_vlan :: "int option"
  p_proto :: Proto
  p_srcPort :: "int option"
  p_dstPort :: "int option"
  p_ttl :: int
  p_payload :: "string option"

record PacketSpec =
  ps_srcNodeId :: string
  ps_dstNodeId :: string
  ps_srcIp :: "string option"
  ps_dstIp :: "string option"
  ps_proto :: "Proto option"
  ps_srcPort :: "int option"
  ps_dstPort :: "int option"

record Endpoint =
  nodeId :: string
  interfaceId :: string

record SimEvent =
  e_packet :: Packet
  e_nodeId :: string
  e_interfaceId :: string
  e_time :: nat

datatype TraceAction =
  Receive | Forward | Flood | Drop | Deliver | Learn | Route | Arp
  | AclAllow | AclDeny

record TraceHop =
  h_time :: nat
  h_nodeId :: string
  h_nodeLabel :: string
  h_interfaceId :: string
  h_action :: TraceAction
  h_reason :: string
  h_packet :: Packet

record SimulationResult =
  success :: bool
  delivered :: bool
  blocked :: bool
  loop :: bool
  trace :: "TraceHop list"
  reason :: string

record MacTableEntry =
  m_mac :: string
  m_interfaceId :: string
  m_vlan :: int
  m_timestamp :: nat

type_synonym MacTable = "string \<rightharpoonup> MacTableEntry"

datatype TraceLevel = minimal | detailed

record SimulationOptions =
  maxHops :: nat
  stepMode :: bool
  traceLevel :: TraceLevel

definition DEFAULT_SIM_OPTIONS :: SimulationOptions where
  "DEFAULT_SIM_OPTIONS = \<lparr> maxHops = 100, stepMode = False, traceLevel = detailed \<rparr>"

datatype PortMode = access | trunk

record SimInterface =
  i_id :: string
  i_mac :: string
  i_ip :: "string option"
  i_vlan :: "int option"
  i_portMode :: "PortMode option"
  i_allowedVlans :: "int list option"

datatype DeviceType = host | switch | router | firewall | phone | server | laptop | cloud

datatype Policy = allow | deny

record StaticRoute =
  sr_prefix :: string
  sr_nextHop :: string
  sr_outInterface :: string

record AclRule =
  r_id :: string
  r_order :: int
  r_action :: Policy
  r_srcIp :: "string option"
  r_dstIp :: "string option"
  r_proto :: "string option"
  r_srcPort :: "int option"
  r_dstPort :: "int option"

record SimNode =
  n_id :: string
  n_type :: DeviceType
  n_label :: string
  n_interfaces :: "SimInterface list"
  n_macLearning :: "bool option"
  n_vlanDatabase :: "int list option"
  n_staticRoutes :: "StaticRoute list option"
  n_aclRules :: "AclRule list option"
  n_defaultPolicy :: "Policy option"

record SimLink =
  l_id :: string
  l_source :: Endpoint
  l_target :: Endpoint

record SimTopology =
  nodes :: "SimNode list"
  links :: "SimLink list"

section \<open>Utility functions (simulator/utils.ts)\<close>

fun getConnectedInterface :: "SimLink list \<Rightarrow> string \<Rightarrow> string \<Rightarrow> Endpoint option" where
  "getConnectedInterface [] nid iid = None"
| "getConnectedInterface (link # rest) nid iid =
     (if nodeId (l_source link) = nid \<and> interfaceId (l_source link) = iid
        then Some (l_target link)
      else if nodeId (l_target link) = nid \<and> interfaceId (l_target link) = iid
        then Some (l_source link)
      else getConnectedInterface rest nid iid)"

definition getNodeById :: "SimNode list \<Rightarrow> string \<Rightarrow> SimNode option" where
  "getNodeById ns nid = find (\<lambda>n. n_id n = nid) ns"

definition macTableKey :: "string \<Rightarrow> int \<Rightarrow> string" where
  "macTableKey mac v = toUpperCase mac @ ''-'' @ show_int v"

definition isBroadcastMac :: "string \<Rightarrow> bool" where
  "isBroadcastMac mac = (toUpperCase mac = ''FF:FF:FF:FF:FF:FF'')"

definition isMulticastMac :: "string \<Rightarrow> bool" where
  "isMulticastMac mac =
     (let firstOctet = parseInt 16 (js_nth (str_split CHR '':'' mac) 0)
      in (to_int32 firstOctet AND 1) = 1)"

definition ipToNumber :: "string \<Rightarrow> 32 word" where
  "ipToNumber ip =
     (let parts = map Number_js (str_split CHR ''.'' ip);
          part = (\<lambda>i. case js_nth parts i of None \<Rightarrow> 0 | Some v \<Rightarrow> number_to_int32 v)
      in push_bit 24 (part 0) OR push_bit 16 (part 1) OR push_bit 8 (part 2) OR part 3)"

text \<open>
  \<open>(~0 << (32 - prefix)) >>> 0\<close>: the shift count of \<open><<\<close> is taken modulo 32, and a NaN
  count is 0.
\<close>

definition prefixToMask :: "int option \<Rightarrow> 32 word" where
  "prefixToMask prefix =
     (case prefix of
        None \<Rightarrow> push_bit 0 (- 1)
      | Some p \<Rightarrow> if p = 0 then 0 else push_bit (nat ((32 - p) mod 32)) (- 1))"

definition cidr_prefix :: "string \<Rightarrow> int option" where
  "cidr_prefix cidr = parseInt 10 (js_nth (str_split CHR ''/'' cidr) 1)"

definition cidr_ip :: "string \<Rightarrow> string" where
  "cidr_ip cidr = hd (str_split CHR ''/'' cidr)"

definition ipInSubnet :: "string \<Rightarrow> string \<Rightarrow> bool" where
  "ipInSubnet ip cidr =
     (let subnetIp = cidr_ip cidr;
          prefix = cidr_prefix cidr;
          ipNum = ipToNumber ip;
          subnetNum = ipToNumber subnetIp;
          mask = prefixToMask prefix
      in (ipNum AND mask) = (subnetNum AND mask))"

text \<open>
  The loop of \<open>findBestRoute\<close>, with its two variables \<open>bestRoute\<close> and \<open>bestPrefix\<close>.
  A comparison with NaN is false, so a route whose prefix length does not parse is never
  taken.
\<close>

fun findBestRoute_loop ::
  "StaticRoute list \<Rightarrow> string \<Rightarrow> StaticRoute option \<Rightarrow> int \<Rightarrow> StaticRoute option" where
  "findBestRoute_loop [] dst bestRoute bestPrefix = bestRoute"
| "findBestRoute_loop (r # rs) dst bestRoute bestPrefix =
     (let prefix = cidr_prefix (sr_prefix r) in
      if ipInSubnet dst (sr_prefix r) \<and> (case prefix of None \<Rightarrow> False | Some p \<Rightarrow> p > bestPrefix)
      then findBestRoute_loop rs dst (Some r) (the prefix)
      else findBestRoute_loop rs dst bestRoute bestPrefix)"

definition findBestRoute :: "StaticRoute list option \<Rightarrow> string \<Rightarrow> StaticRoute option" where
  "findBestRoute staticRoutes dst =
     (case staticRoutes of
        None \<Rightarrow> None
      | Some rs \<Rightarrow> if rs = [] then None else findBestRoute_loop rs dst None (- 1))"

section \<open>Devices (devices/Device.ts and its subclasses)\<close>

text \<open>
  An event as a device returns it (\<open>Omit<SimEvent, 'time'>\<close>), and the result of one
  call of \<open>processPacket\<close>.
\<close>

record OutEvent =
  ev_packet :: Packet
  ev_nodeId :: string
  ev_interfaceId :: string

record DeviceProcessResult =
  events :: "OutEvent list"
  dtrace :: "TraceHop list"
  ddelivered :: bool

record DeviceBase =
  d_id :: string
  d_label :: string
  d_type :: DeviceType
  d_interfaces :: "SimInterface list"

text \<open>
  The class of a device: \<open>HostDevice\<close>, \<open>SwitchDevice\<close> (MAC learning, VLAN database),
  \<open>RouterDevice\<close> (static routes), \<open>FirewallDevice\<close> (ACL rules, default policy) and
  \<open>CloudDevice\<close>.
\<close>

datatype Device =
  HostDevice DeviceBase
  | SwitchDevice DeviceBase bool "int list"
  | RouterDevice DeviceBase "StaticRoute list"
  | FirewallDevice DeviceBase "AclRule list" Policy
  | CloudDevice DeviceBase

fun base_of :: "Device \<Rightarrow> DeviceBase" where
  "base_of (HostDevice b) = b"
| "base_of (SwitchDevice b ml vdb) = b"
| "base_of (RouterDevice b rs) = b"
| "base_of (FirewallDevice b rules pol) = b"
| "base_of (CloudDevice b) = b"

definition getLabel :: "Device \<Rightarrow> string" where
  "getLabel d = d_label (base_of d)"

definition getInterface :: "DeviceBase \<Rightarrow> string \<Rightarrow> SimInterface option" where
  "getInterface b iid = find (\<lambda>i. i_id i = iid) (d_interfaces b)"

text \<open>\<open>iface.ip?.split('/')[0]\<close>: the address part of the interface's CIDR, if it has one.\<close>

definition iface_ip_addr :: "SimInterface \<Rightarrow> string option" where
  "iface_ip_addr iface = map_option cidr_ip (i_ip iface)"

definition isPacketForThisDevice :: "DeviceBase \<Rightarrow> Packet \<Rightarrow> string \<Rightarrow> bool" where
  "isPacketForThisDevice b packet iid =
     (case getInterface b iid of
        None \<Rightarrow> False
      | Some iface \<Rightarrow>
          (let dstMacMatch = (toUpperCase (p_dstMac packet) = toUpperCase (i_mac iface));
               broadcastMatch = (toUpperCase (p_dstMac packet) = ''FF:FF:FF:FF:FF:FF'');
               ipMatch = (if truthy_str (p_dstIp packet)
                          then iface_ip_addr iface = p_dstIp packet else False)
           in dstMacMatch \<or> broadcastMatch \<or> ipMatch))"

definition createTraceHop ::
  "DeviceBase \<Rightarrow> nat \<Rightarrow> string \<Rightarrow> TraceAction \<Rightarrow> string \<Rightarrow> Packet \<Rightarrow> TraceHop" where
  "createTraceHop b time iid action rsn packet =
     \<lparr> h_time = time, h_nodeId = d_id b, h_nodeLabel = d_label b, h_interfaceId = iid,
       h_action = action, h_reason = rsn, h_packet = packet \<rparr>"

definition createForwardEvent :: "Packet \<Rightarrow> string \<Rightarrow> string \<Rightarrow> OutEvent" where
  "createForwardEvent packet targetNodeId targetInterfaceId =
     \<lparr> ev_packet = packet, ev_nodeId = targetNodeId, ev_interfaceId = targetInterfaceId \<rparr>"

definition findConnectedInterface :: "DeviceBase \<Rightarrow> SimLink list \<Rightarrow> string \<Rightarrow> Endpoint option" where
  "findConnectedInterface b lnks iid = getConnectedInterface lnks (d_id b) iid"

text \<open>
  \<open>generatePacketId\<close> reads the clock and a random source. The model takes the ids the
  environment hands out as a function \<open>gen\<close> of the number of ids drawn so far, and
  threads that number.
\<close>

definition generatePacketId :: "(nat \<Rightarrow> string) \<Rightarrow> nat \<Rightarrow> string \<times> nat" where
  "generatePacketId gen k = (gen k, Suc k)"

subsection \<open>Host and cloud\<close>

definition host_processPacket ::
  "DeviceBase \<Rightarrow> string \<Rightarrow> Packet \<Rightarrow> SimLink list \<Rightarrow> nat \<Rightarrow> DeviceProcessResult" where
  "host_processPacket b iid packet lnks time =
     (case getInterface b iid of
        None \<Rightarrow>
          \<lparr> events = [], dtrace = [createTraceHop b time iid Drop ''Invalid interface'' packet],
            ddelivered = False \<rparr>
      | Some iface \<Rightarrow>
          if isPacketForThisDevice b packet iid
          then \<lparr> events = [],
                 dtrace = [createTraceHop b time iid Deliver
                             (''Packet delivered to '' @ d_label b) packet],
                 ddelivered = True \<rparr>
          else \<lparr> events = [],
                 dtrace = [createTraceHop b time iid Drop
                             ''Packet not addressed to this host'' packet],
                 ddelivered = False \<rparr>)"

definition sendPacket ::
  "(nat \<Rightarrow> string) \<Rightarrow> nat \<Rightarrow> DeviceBase \<Rightarrow> string \<Rightarrow> string \<Rightarrow> SimLink list \<Rightarrow> nat \<Rightarrow> Proto \<Rightarrow>
   int option \<Rightarrow> int option \<Rightarrow> DeviceProcessResult \<times> nat" where
  "sendPacket gen k b dMac dIp lnks time prot sPort dPort =
     (case d_interfaces b of
        [] \<Rightarrow> (\<lparr> events = [], dtrace = [], ddelivered = False \<rparr>, k)
      | iface # _ \<Rightarrow>
          (let (pid, k') = generatePacketId gen k;
               packet = \<lparr> p_id = pid, p_srcMac = i_mac iface, p_dstMac = dMac,
                          p_srcIp = iface_ip_addr iface, p_dstIp = Some dIp,
                          p_vlan = i_vlan iface, p_proto = prot, p_srcPort = sPort,
                          p_dstPort = dPort, p_ttl = 64, p_payload = None \<rparr>;
               hop = createTraceHop b time (i_id iface) Forward
                       (''Sending packet from '' @ d_label b @ '' to '' @ dIp) packet
           in (case findConnectedInterface b lnks (i_id iface) of
                 None \<Rightarrow>
                   (\<lparr> events = [],
                      dtrace = [hop\<lparr> h_action := Drop, h_reason := ''No link connected'' \<rparr>],
                      ddelivered = False \<rparr>, k')
               | Some connected \<Rightarrow>
                   (\<lparr> events = [createForwardEvent packet (nodeId connected) (interfaceId connected)],
                      dtrace = [hop], ddelivered = False \<rparr>, k'))))"

definition cloud_processPacket ::
  "DeviceBase \<Rightarrow> string \<Rightarrow> Packet \<Rightarrow> SimLink list \<Rightarrow> nat \<Rightarrow> DeviceProcessResult" where
  "cloud_processPacket b iid packet lnks time =
     (case getInterface b iid of
        None \<Rightarrow>
          \<lparr> events = [], dtrace = [createTraceHop b time iid Drop ''Invalid interface'' packet],
            ddelivered = False \<rparr>
      | Some iface \<Rightarrow>
          \<lparr> events = [],
            dtrace = [createTraceHop b time iid Deliver
                        (''Packet delivered to '' @ d_label b @ '' (Internet)'') packet],
            ddelivered = True \<rparr>)"

subsection \<open>Switch\<close>

text \<open>
  \<open>x || 1\<close> on an optional number, and \<open>resolveVlan\<close>, where \<open>None\<close> is the source's
  \<open>null\<close> (VLAN not allowed on the trunk). An empty \<open>allowedVlans\<close> array is truthy: it
  allows nothing.
\<close>

definition or_one :: "int option \<Rightarrow> int" where
  "or_one v = (if truthy_num v then the v else 1)"

definition resolveVlan :: "Packet \<Rightarrow> SimInterface \<Rightarrow> int option" where
  "resolveVlan packet ingressIface =
     (let v = (if i_portMode ingressIface = Some access then Some (or_one (i_vlan ingressIface))
               else if i_portMode ingressIface = Some trunk then Some (or_one (p_vlan packet))
               else p_vlan packet)
      in if i_portMode ingressIface = Some trunk \<and>
            (case i_allowedVlans ingressIface of
               None \<Rightarrow> False
             | Some allowed \<Rightarrow> or_one (p_vlan packet) \<notin> set allowed)
         then None
         else Some (or_one v))"

text \<open>
  \<open>learnMacAddress\<close> writes the table and pushes a \<open>learn\<close> hop when the key is new or
  bound to another interface; it returns the table, the hops to append and the id count.
\<close>

definition learnMacAddress ::
  "(nat \<Rightarrow> string) \<Rightarrow> nat \<Rightarrow> DeviceBase \<Rightarrow> string \<Rightarrow> string \<Rightarrow> int \<Rightarrow> nat \<Rightarrow> MacTable \<Rightarrow>
   MacTable \<times> TraceHop list \<times> nat" where
  "learnMacAddress gen k b mac iid v time macTable =
     (let key = macTableKey mac v;
          existing = macTable key
      in if existing = None \<or> m_interfaceId (the existing) \<noteq> iid
         then (let (pid, k') = generatePacketId gen k;
                   learnPacket = \<lparr> p_id = pid, p_srcMac = mac, p_dstMac = [],
                                   p_srcIp = None, p_dstIp = None, p_vlan = None,
                                   p_proto = icmp, p_srcPort = None, p_dstPort = None,
                                   p_ttl = 64, p_payload = None \<rparr>
               in (macTable(key \<mapsto> \<lparr> m_mac = mac, m_interfaceId = iid, m_vlan = v,
                                      m_timestamp = time \<rparr>),
                   [createTraceHop b time iid Learn
                      (''Learned '' @ mac @ '' on '' @ iid @ '' (VLAN '' @ show_int v @ '')'')
                      learnPacket],
                   k'))
         else (macTable, [], k))"

definition canEgressOnInterface :: "SimInterface \<Rightarrow> int \<Rightarrow> bool" where
  "canEgressOnInterface iface v =
     (if i_portMode iface = Some access then i_vlan iface = Some v
      else if i_portMode iface = Some trunk
        then (case i_allowedVlans iface of None \<Rightarrow> True | Some allowed \<Rightarrow> v \<in> set allowed)
      else v = 1)"

definition prepareEgressPacket :: "Packet \<Rightarrow> SimInterface \<Rightarrow> Packet" where
  "prepareEgressPacket packet egressIface =
     (if i_portMode egressIface = Some access then packet\<lparr> p_vlan := None \<rparr> else packet)"

text \<open>\<open>forwardToKnownPort\<close> and \<open>floodPacket\<close> return what they push to \<open>events\<close> and \<open>trace\<close>.\<close>

definition forwardToKnownPort ::
  "DeviceBase \<Rightarrow> string \<Rightarrow> Packet \<Rightarrow> string \<Rightarrow> int \<Rightarrow> SimLink list \<Rightarrow> nat \<Rightarrow>
   OutEvent list \<times> TraceHop list" where
  "forwardToKnownPort b egressInterfaceId packet ingressInterfaceId v lnks time =
     (case getInterface b egressInterfaceId of
        None \<Rightarrow> ([], [])
      | Some egressIface \<Rightarrow>
          if i_id egressIface = ingressInterfaceId then ([], [])
          else if canEgressOnInterface egressIface v
          then (let outPacket = prepareEgressPacket packet egressIface in
                case findConnectedInterface b lnks (i_id egressIface) of
                  None \<Rightarrow> ([], [])
                | Some connected \<Rightarrow>
                    ([createForwardEvent outPacket (nodeId connected) (interfaceId connected)],
                     [createTraceHop b time (i_id egressIface) Forward
                        (''Forwarding to known MAC on '' @ i_id egressIface) outPacket]))
          else ([], []))"

fun flood_loop ::
  "DeviceBase \<Rightarrow> SimInterface list \<Rightarrow> Packet \<Rightarrow> string \<Rightarrow> int \<Rightarrow> SimLink list \<Rightarrow> OutEvent list" where
  "flood_loop b [] packet ingressInterfaceId v lnks = []"
| "flood_loop b (egressIface # rest) packet ingressInterfaceId v lnks =
     (if i_id egressIface = ingressInterfaceId
        then flood_loop b rest packet ingressInterfaceId v lnks
      else if canEgressOnInterface egressIface v
        then (let outPacket = prepareEgressPacket packet egressIface in
              case findConnectedInterface b lnks (i_id egressIface) of
                None \<Rightarrow> flood_loop b rest packet ingressInterfaceId v lnks
              | Some connected \<Rightarrow>
                  createForwardEvent outPacket (nodeId connected) (interfaceId connected)
                    # flood_loop b rest packet ingressInterfaceId v lnks)
      else flood_loop b rest packet ingressInterfaceId v lnks)"

definition floodPacket ::
  "DeviceBase \<Rightarrow> Packet \<Rightarrow> string \<Rightarrow> int \<Rightarrow> SimLink list \<Rightarrow> nat \<Rightarrow> bool \<Rightarrow>
   OutEvent list \<times> TraceHop list" where
  "floodPacket b packet ingressInterfaceId v lnks time isBroadcast =
     (flood_loop b (d_interfaces b) packet ingressInterfaceId v lnks,
      [createTraceHop b time ingressInterfaceId Flood
         (if isBroadcast then ''Flooding broadcast'' else ''Unknown destination, flooding'')
         packet])"

text \<open>
  \<open>SwitchDevice.processPacket\<close>. The MAC table is the optional last argument; the
  function returns it as the call leaves it.
\<close>

definition switch_processPacket ::
  "(nat \<Rightarrow> string) \<Rightarrow> nat \<Rightarrow> DeviceBase \<Rightarrow> bool \<Rightarrow> string \<Rightarrow> Packet \<Rightarrow> SimLink list \<Rightarrow> nat \<Rightarrow>
   MacTable option \<Rightarrow> DeviceProcessResult \<times> MacTable option \<times> nat" where
  "switch_processPacket gen k b macLearning iid packet lnks time macTable =
     (case getInterface b iid of
        None \<Rightarrow>
          (\<lparr> events = [],
             dtrace = [createTraceHop b time iid Drop ''Invalid ingress interface'' packet],
             ddelivered = False \<rparr>, macTable, k)
      | Some ingressIface \<Rightarrow>
          (case resolveVlan packet ingressIface of
             None \<Rightarrow>
               (\<lparr> events = [],
                  dtrace = [createTraceHop b time iid Drop ''VLAN not allowed on trunk'' packet],
                  ddelivered = False \<rparr>, macTable, k)
           | Some v \<Rightarrow>
               (let processedPacket = packet\<lparr> p_vlan := Some v \<rparr>;
                    (macTable1, learnt, k') =
                       (case macTable of
                          Some t \<Rightarrow>
                            if macLearning
                            then (let (t', hops, k') =
                                        learnMacAddress gen k b (p_srcMac packet) iid v time t
                                  in (Some t', hops, k'))
                            else (macTable, [], k)
                        | None \<Rightarrow> (macTable, [], k));
                    received = [createTraceHop b time iid Receive
                                  (''Packet received on '' @ iid) processedPacket];
                    isBroadcast = (isBroadcastMac (p_dstMac packet) \<or> isMulticastMac (p_dstMac packet));
                    dstKey = macTableKey (p_dstMac packet) v;
                    dstEntry = (case macTable1 of None \<Rightarrow> None | Some t \<Rightarrow> t dstKey);
                    (evs, hops) =
                       (if \<not> isBroadcast \<and> dstEntry \<noteq> None
                        then forwardToKnownPort b (m_interfaceId (the dstEntry)) processedPacket
                               iid v lnks time
                        else floodPacket b processedPacket iid v lnks time isBroadcast)
                in (\<lparr> events = evs, dtrace = learnt @ received @ hops, ddelivered = False \<rparr>,
                    macTable1, k'))))"

subsection \<open>Router\<close>

definition isPacketForRouter :: "DeviceBase \<Rightarrow> Packet \<Rightarrow> bool" where
  "isPacketForRouter b packet =
     list_ex (\<lambda>iface. let ifaceIp = iface_ip_addr iface
                      in truthy_str ifaceIp \<and> ifaceIp = p_dstIp packet)
       (d_interfaces b)"

text \<open>
  The loop of \<open>findDirectRoute\<close>: the event to return and the \<open>route\<close> hop pushed to the
  trace, or \<open>None\<close> for \<open>null\<close>. An interface that matches but has no connected peer is
  passed over and the loop goes on.
\<close>

fun findDirectRoute_loop ::
  "DeviceBase \<Rightarrow> SimInterface list \<Rightarrow> string \<Rightarrow> string \<Rightarrow> SimLink list \<Rightarrow> Packet \<Rightarrow> nat \<Rightarrow>
   (OutEvent \<times> TraceHop) option" where
  "findDirectRoute_loop b [] dIp ingressInterfaceId lnks routedPacket time = None"
| "findDirectRoute_loop b (iface # rest) dIp ingressInterfaceId lnks routedPacket time =
     (if i_id iface = ingressInterfaceId \<or> \<not> truthy_str (i_ip iface)
        then findDirectRoute_loop b rest dIp ingressInterfaceId lnks routedPacket time
      else if ipInSubnet dIp (the (i_ip iface))
        then (let forwardedPacket = routedPacket\<lparr> p_srcMac := i_mac iface \<rparr> in
              case findConnectedInterface b lnks (i_id iface) of
                Some connected \<Rightarrow>
                  Some (createForwardEvent forwardedPacket (nodeId connected) (interfaceId connected),
                        createTraceHop b time (i_id iface) Route
                          (''Routing to directly connected network via '' @ i_id iface)
                          forwardedPacket)
              | None \<Rightarrow> findDirectRoute_loop b rest dIp ingressInterfaceId lnks routedPacket time)
      else findDirectRoute_loop b rest dIp ingressInterfaceId lnks routedPacket time)"

definition findDirectRoute ::
  "DeviceBase \<Rightarrow> string \<Rightarrow> string \<Rightarrow> SimLink list \<Rightarrow> Packet \<Rightarrow> nat \<Rightarrow> (OutEvent \<times> TraceHop) option" where
  "findDirectRoute b dIp ingressInterfaceId lnks routedPacket time =
     findDirectRoute_loop b (d_interfaces b) dIp ingressInterfaceId lnks routedPacket time"

definition findStaticRoute ::
  "DeviceBase \<Rightarrow> StaticRoute list \<Rightarrow> string \<Rightarrow> SimLink list \<Rightarrow> Packet \<Rightarrow> nat \<Rightarrow>
   (OutEvent \<times> TraceHop) option" where
  "findStaticRoute b staticRoutes dIp lnks routedPacket time =
     (case findBestRoute (Some staticRoutes) dIp of
        None \<Rightarrow> None
      | Some rt \<Rightarrow>
          (case getInterface b (sr_outInterface rt) of
             None \<Rightarrow> None
           | Some egressIface \<Rightarrow>
               (let forwardedPacket = routedPacket\<lparr> p_srcMac := i_mac egressIface \<rparr> in
                case findConnectedInterface b lnks (i_id egressIface) of
                  None \<Rightarrow> None
                | Some connected \<Rightarrow>
                    Some (createForwardEvent forwardedPacket (nodeId connected)
                            (interfaceId connected),
                          createTraceHop b time (i_id egressIface) Route
                            (''Routing via static route '' @ sr_prefix rt @ '' -> '' @ sr_nextHop rt)
                            forwardedPacket))))"

definition router_processPacket ::
  "DeviceBase \<Rightarrow> StaticRoute list \<Rightarrow> string \<Rightarrow> Packet \<Rightarrow> SimLink list \<Rightarrow> nat \<Rightarrow>
   DeviceProcessResult" where
  "router_processPacket b staticRoutes iid packet lnks time =
     (case getInterface b iid of
        None \<Rightarrow>
          \<lparr> events = [],
            dtrace = [createTraceHop b time iid Drop ''Invalid ingress interface'' packet],
            ddelivered = False \<rparr>
      | Some ingressIface \<Rightarrow>
          if isPacketForRouter b packet
          then \<lparr> events = [],
                 dtrace = [createTraceHop b time iid Deliver
                             (''Packet delivered to router '' @ d_label b) packet],
                 ddelivered = True \<rparr>
          else if p_ttl packet \<le> 1
          then \<lparr> events = [],
                 dtrace = [createTraceHop b time iid Drop ''TTL expired'' packet],
                 ddelivered = False \<rparr>
          else
            (let routedPacket = packet\<lparr> p_ttl := p_ttl packet - 1 \<rparr>;
                 received = createTraceHop b time iid Receive
                              (''Packet received on '' @ iid) routedPacket
             in if \<not> truthy_str (p_dstIp packet)
                then \<lparr> events = [],
                       dtrace = [received,
                                 createTraceHop b time iid Drop
                                   ''No destination IP for routing'' routedPacket],
                       ddelivered = False \<rparr>
                else
                  (case findDirectRoute b (the (p_dstIp packet)) iid lnks routedPacket time of
                     Some (ev, hop) \<Rightarrow>
                       \<lparr> events = [ev], dtrace = [received, hop], ddelivered = False \<rparr>
                   | None \<Rightarrow>
                       (case findStaticRoute b staticRoutes (the (p_dstIp packet)) lnks
                               routedPacket time of
                          Some (ev, hop) \<Rightarrow>
                            \<lparr> events = [ev], dtrace = [received, hop], ddelivered = False \<rparr>
                        | None \<Rightarrow>
                            \<lparr> events = [],
                              dtrace = [received,
                                        createTraceHop b time iid Drop
                                          (''No route to '' @ the (p_dstIp packet)) routedPacket],
                              ddelivered = False \<rparr>))))"

subsection \<open>Firewall\<close>

definition isPacketForFirewall :: "DeviceBase \<Rightarrow> Packet \<Rightarrow> bool" where
  "isPacketForFirewall b packet =
     list_ex (\<lambda>iface. let ifaceIp = iface_ip_addr iface
                      in truthy_str ifaceIp \<and> ifaceIp = p_dstIp packet)
       (d_interfaces b)"

text \<open>\<open>matchesRule\<close>, with its five guarded early returns in the source's order.\<close>

definition matchesRule :: "Packet \<Rightarrow> AclRule \<Rightarrow> bool" where
  "matchesRule packet rule =
     (if truthy_str (r_proto rule) \<and> r_proto rule \<noteq> Some ''any''
         \<and> r_proto rule \<noteq> Some (proto_str (p_proto packet))
      then False
      else if truthy_str (r_srcIp rule) \<and> r_srcIp rule \<noteq> Some ''any'' \<and> truthy_str (p_srcIp packet)
              \<and> (if includes_char (the (r_srcIp rule)) CHR ''/''
                  then \<not> ipInSubnet (the (p_srcIp packet)) (the (r_srcIp rule))
                  else r_srcIp rule \<noteq> p_srcIp packet)
      then False
      else if truthy_str (r_dstIp rule) \<and> r_dstIp rule \<noteq> Some ''any'' \<and> truthy_str (p_dstIp packet)
              \<and> (if includes_char (the (r_dstIp rule)) CHR ''/''
                  then \<not> ipInSubnet (the (p_dstIp packet)) (the (r_dstIp rule))
                  else r_dstIp rule \<noteq> p_dstIp packet)
      then False
      else if r_srcPort rule \<noteq> None \<and> p_srcPort packet \<noteq> r_srcPort rule
      then False
      else if r_dstPort rule \<noteq> None \<and> p_dstPort packet \<noteq> r_dstPort rule
      then False
      else True)"

record AclResult =
  matched :: bool
  action :: Policy
  matchedRule :: "AclRule option"

fun matchAclRules_loop :: "AclRule list \<Rightarrow> Packet \<Rightarrow> Policy \<Rightarrow> AclResult" where
  "matchAclRules_loop [] packet defaultPolicy =
     \<lparr> matched = False, action = defaultPolicy, matchedRule = None \<rparr>"
| "matchAclRules_loop (rule # rest) packet defaultPolicy =
     (if matchesRule packet rule
      then \<lparr> matched = True, action = r_action rule, matchedRule = Some rule \<rparr>
      else matchAclRules_loop rest packet defaultPolicy)"

text \<open>
  \<open>[...this.aclRules].sort((a, b) => a.order - b.order)\<close>: a stable sort by \<open>order\<close>;
  \<open>sort_key\<close> is the stable insertion sort.
\<close>

definition matchAclRules :: "AclRule list \<Rightarrow> Policy \<Rightarrow> Packet \<Rightarrow> AclResult" where
  "matchAclRules aclRules defaultPolicy packet =
     (let sortedRules = sort_key r_order aclRules
      in matchAclRules_loop sortedRules packet defaultPolicy)"

fun show_policy :: "Policy \<Rightarrow> string" where
  "show_policy allow = ''allow''"
| "show_policy deny = ''deny''"

fun forwardPacket_loop ::
  "DeviceBase \<Rightarrow> SimInterface list \<Rightarrow> Packet \<Rightarrow> string \<Rightarrow> SimLink list \<Rightarrow> nat \<Rightarrow>
   (OutEvent \<times> TraceHop) option" where
  "forwardPacket_loop b [] packet ingressInterfaceId lnks time = None"
| "forwardPacket_loop b (egressIface # rest) packet ingressInterfaceId lnks time =
     (if i_id egressIface = ingressInterfaceId
        then forwardPacket_loop b rest packet ingressInterfaceId lnks time
      else (case findConnectedInterface b lnks (i_id egressIface) of
              Some connected \<Rightarrow>
                (let forwardedPacket = packet\<lparr> p_srcMac := i_mac egressIface \<rparr>
                 in Some (createForwardEvent forwardedPacket (nodeId connected)
                            (interfaceId connected),
                          createTraceHop b time (i_id egressIface) Forward
                            (''Forwarding via '' @ i_id egressIface) forwardedPacket))
            | None \<Rightarrow> forwardPacket_loop b rest packet ingressInterfaceId lnks time))"

definition forwardPacket ::
  "DeviceBase \<Rightarrow> Packet \<Rightarrow> string \<Rightarrow> SimLink list \<Rightarrow> nat \<Rightarrow> (OutEvent \<times> TraceHop) option" where
  "forwardPacket b packet ingressInterfaceId lnks time =
     forwardPacket_loop b (d_interfaces b) packet ingressInterfaceId lnks time"

definition firewall_processPacket ::
  "DeviceBase \<Rightarrow> AclRule list \<Rightarrow> Policy \<Rightarrow> string \<Rightarrow> Packet \<Rightarrow> SimLink list \<Rightarrow> nat \<Rightarrow>
   DeviceProcessResult" where
  "firewall_processPacket b aclRules defaultPolicy iid packet lnks time =
     (case getInterface b iid of
        None \<Rightarrow>
          \<lparr> events = [],
            dtrace = [createTraceHop b time iid Drop ''Invalid ingress interface'' packet],
            ddelivered = False \<rparr>
      | Some ingressIface \<Rightarrow>
          (let received = createTraceHop b time iid Receive (''Packet received on '' @ iid) packet
           in if isPacketForFirewall b packet
              then \<lparr> events = [],
                     dtrace = [received,
                               createTraceHop b time iid Deliver
                                 (''Packet delivered to firewall '' @ d_label b) packet],
                     ddelivered = True \<rparr>
              else
                (let aclResult = matchAclRules aclRules defaultPolicy packet;
                     ruleOrder = (case matchedRule aclResult of
                                    None \<Rightarrow> ''undefined''
                                  | Some rule \<Rightarrow> show_int (r_order rule))
                 in if action aclResult = deny
                    then \<lparr> events = [],
                           dtrace = [received,
                                     createTraceHop b time iid AclDeny
                                       (if matched aclResult
                                        then ''Blocked by ACL rule '' @ ruleOrder
                                        else ''Blocked by default policy ('' @
                                             show_policy defaultPolicy @ '')'')
                                       packet],
                           ddelivered = False \<rparr>
                    else
                      (let allowed = createTraceHop b time iid AclAllow
                                       (if matched aclResult
                                        then ''Allowed by ACL rule '' @ ruleOrder
                                        else ''Allowed by default policy ('' @
                                             show_policy defaultPolicy @ '')'')
                                       packet
                       in case forwardPacket b packet iid lnks time of
                            Some (ev, hop) \<Rightarrow>
                              \<lparr> events = [ev], dtrace = [received, allowed, hop],
                                ddelivered = False \<rparr>
                          | None \<Rightarrow>
                              \<lparr> events = [], dtrace = [received, allowed],
                                ddelivered = False \<rparr>))))"

subsection \<open>Device factory\<close>

definition createFromSimNode :: "SimNode \<Rightarrow> Device" where
  "createFromSimNode simNode =
     (let b = \<lparr> d_id = n_id simNode, d_label = n_label simNode, d_type = n_type simNode,
                d_interfaces = n_interfaces simNode \<rparr>
      in case n_type simNode of
           switch \<Rightarrow>
             SwitchDevice b
               (case n_macLearning simNode of None \<Rightarrow> True | Some v \<Rightarrow> v)
               (case n_vlanDatabase simNode of None \<Rightarrow> [1] | Some v \<Rightarrow> v)
         | router \<Rightarrow>
             RouterDevice b (case n_staticRoutes simNode of None \<Rightarrow> [] | Some v \<Rightarrow> v)
         | firewall \<Rightarrow>
             FirewallDevice b
               (case n_aclRules simNode of None \<Rightarrow> [] | Some v \<Rightarrow> v)
               (case n_defaultPolicy simNode of None \<Rightarrow> deny | Some v \<Rightarrow> v)
         | cloud \<Rightarrow> CloudDevice b
         | _ \<Rightarrow> HostDevice b)"

section \<open>Event queue (simulator/EventQueue.ts)\<close>

text \<open>
  The queue and its logical clock. \<open>q_dequeued\<close> is not a field of the source: it counts
  the events that \<open>dequeue\<close> has handed out, so that the bound of the main loop can be
  stated. \<open>dequeue\<close> on an empty queue returns \<open>undefined\<close> (\<open>None\<close>).
\<close>

record EventQueue =
  q_queue :: "SimEvent list"
  q_time :: nat
  q_dequeued :: nat

definition enqueue :: "OutEvent \<Rightarrow> EventQueue \<Rightarrow> EventQueue" where
  "enqueue ev q =
     q\<lparr> q_queue := q_queue q @
          [\<lparr> e_packet = ev_packet ev, e_nodeId = ev_nodeId ev,
             e_interfaceId = ev_interfaceId ev, e_time = q_time q \<rparr>] \<rparr>"

definition dequeue :: "EventQueue \<Rightarrow> SimEvent option \<times> EventQueue" where
  "dequeue q =
     (case q_queue q of
        [] \<Rightarrow> (None, q)
      | e # es \<Rightarrow> (Some e, q\<lparr> q_queue := es, q_dequeued := Suc (q_dequeued q) \<rparr>))"

definition isEmpty :: "EventQueue \<Rightarrow> bool" where
  "isEmpty q = (length (q_queue q) = 0)"

definition tick :: "EventQueue \<Rightarrow> EventQueue" where
  "tick q = q\<lparr> q_time := Suc (q_time q) \<rparr>"

definition getTime :: "EventQueue \<Rightarrow> nat" where
  "getTime q = q_time q"

definition clear :: "EventQueue \<Rightarrow> EventQueue" where
  "clear q = q\<lparr> q_queue := [], q_time := 0 \<rparr>"

definition new_EventQueue :: EventQueue where
  "new_EventQueue = \<lparr> q_queue = [], q_time = 0, q_dequeued = 0 \<rparr>"

section \<open>Graph analyzer (simulator/GraphAnalyzer.ts)\<close>

text \<open>
  Modelled from the spec: the graph library that \<open>GraphAnalyzer\<close> imports is not part of
  the sources. Its undirected graph is a list of node names and a list of edges;
  \<open>setNode\<close> adds a name, \<open>setEdge\<close> adds both end points and the edge, taking the text
  of each end point as its name; the path search answers whether the target is reached
  from the source across edges (the BFS/DFS across links of the analyzer's description).
\<close>

record Graph =
  g_nodes :: "string list"
  g_edges :: "(string \<times> string) list"

definition new_Graph :: Graph where
  "new_Graph = \<lparr> g_nodes = [], g_edges = [] \<rparr>"

definition setNode :: "string \<Rightarrow> Graph \<Rightarrow> Graph" where
  "setNode v g = (if v \<in> set (g_nodes g) then g else g\<lparr> g_nodes := g_nodes g @ [v] \<rparr>)"

definition js_text :: "string option \<Rightarrow> string" where
  "js_text v = (case v of None \<Rightarrow> ''undefined'' | Some s \<Rightarrow> s)"

definition setEdge :: "string option \<Rightarrow> string option \<Rightarrow> Graph \<Rightarrow> Graph" where
  "setEdge v w g =
     (let g' = setNode (js_text w) (setNode (js_text v) g)
      in g'\<lparr> g_edges := g_edges g' @ [(js_text v, js_text w)] \<rparr>)"

definition graph_path_exists :: "Graph \<Rightarrow> string \<Rightarrow> string \<Rightarrow> bool" where
  "graph_path_exists g s t =
     (s \<in> set (g_nodes g) \<and> t \<in> set (g_nodes g) \<and>
      (s = t \<or> (s, t) \<in> (set (g_edges g) \<union> (set (g_edges g))\<inverse>)\<^sup>+))"

text \<open>
  \<open>buildGraph\<close> reads \<open>link.sourceNodeId\<close> and \<open>link.targetNodeId\<close>. A \<open>SimLink\<close> has the
  fields \<open>id\<close>, \<open>source\<close> and \<open>target\<close> only, its node ids being \<open>source.nodeId\<close> and
  \<open>target.nodeId\<close>: the two properties read here are on no link, and reading them gives
  \<open>undefined\<close>.
\<close>

definition link_sourceNodeId :: "SimLink \<Rightarrow> string option" where
  "link_sourceNodeId link = None"

definition link_targetNodeId :: "SimLink \<Rightarrow> string option" where
  "link_targetNodeId link = None"

definition buildGraph :: "SimTopology \<Rightarrow> Graph" where
  "buildGraph topology =
     (let g1 = fold (\<lambda>node g. setNode (n_id node) g) (nodes topology) new_Graph
      in fold (\<lambda>link g. setEdge (link_sourceNodeId link) (link_targetNodeId link) g)
           (links topology) g1)"

record GraphAnalyzer =
  ga_graph :: Graph
  ga_topology :: SimTopology

definition new_GraphAnalyzer :: "SimTopology \<Rightarrow> GraphAnalyzer" where
  "new_GraphAnalyzer topology = \<lparr> ga_graph = buildGraph topology, ga_topology = topology \<rparr>"

definition isReachable :: "GraphAnalyzer \<Rightarrow> string \<Rightarrow> string \<Rightarrow> bool" where
  "isReachable ga sourceId targetId = graph_path_exists (ga_graph ga) sourceId targetId"

section \<open>Simulator driver (simulator/Simulator.ts)\<close>

text \<open>
  The fields of the \<open>Simulator\<close> object, and \<open>s_ids\<close>, the number of packet ids drawn
  from the environment so far.
\<close>

record Simulator =
  s_topology :: SimTopology
  s_options :: SimulationOptions
  s_eventQueue :: EventQueue
  s_macTables :: "string \<rightharpoonup> MacTable"
  s_trace :: "TraceHop list"
  s_devices :: "string \<rightharpoonup> Device"
  s_graphAnalyzer :: GraphAnalyzer
  s_ids :: nat

definition new_Simulator :: "SimTopology \<Rightarrow> SimulationOptions \<Rightarrow> Simulator" where
  "new_Simulator topology opts =
     \<lparr> s_topology = topology,
       s_options = opts,
       s_eventQueue = new_EventQueue,
       s_macTables = fold (\<lambda>node m. if n_type node = switch then m(n_id node \<mapsto> Map.empty) else m)
                       (nodes topology) Map.empty,
       s_trace = [],
       s_devices = fold (\<lambda>node m. m(n_id node \<mapsto> createFromSimNode node))
                     (nodes topology) Map.empty,
       s_graphAnalyzer = new_GraphAnalyzer topology,
       s_ids = 0 \<rparr>"

definition getDevice :: "Simulator \<Rightarrow> string \<Rightarrow> Device option" where
  "getDevice s nid = s_devices s nid"

text \<open>
  \<open>processAtDevice\<close>: the call is dispatched on the class of the device; a switch gets
  its MAC table, which it updates in place.
\<close>

definition processAtDevice ::
  "(nat \<Rightarrow> string) \<Rightarrow> Simulator \<Rightarrow> Device \<Rightarrow> string \<Rightarrow> Packet \<Rightarrow> nat \<Rightarrow>
   DeviceProcessResult \<times> Simulator" where
  "processAtDevice gen s device iid packet time =
     (case device of
        HostDevice b \<Rightarrow> (host_processPacket b iid packet (links (s_topology s)) time, s)
      | CloudDevice b \<Rightarrow> (cloud_processPacket b iid packet (links (s_topology s)) time, s)
      | RouterDevice b staticRoutes \<Rightarrow>
          (router_processPacket b staticRoutes iid packet (links (s_topology s)) time, s)
      | FirewallDevice b aclRules defaultPolicy \<Rightarrow>
          (firewall_processPacket b aclRules defaultPolicy iid packet (links (s_topology s)) time, s)
      | SwitchDevice b macLearning vlanDatabase \<Rightarrow>
          (let macTable = (if d_type b = switch then s_macTables s (d_id b) else None);
               (res, macTable', k') =
                 switch_processPacket gen (s_ids s) b macLearning iid packet
                   (links (s_topology s)) time macTable
           in (res,
               s\<lparr> s_macTables := (case macTable' of
                                     None \<Rightarrow> s_macTables s
                                   | Some t \<Rightarrow> (s_macTables s)(d_id b \<mapsto> t)),
                  s_ids := k' \<rparr>)))"

datatype error = TypeError

definition failure :: "string \<Rightarrow> SimulationResult" where
  "failure rsn =
     \<lparr> success = False, delivered = False, blocked = False, loop = False, trace = [],
       reason = rsn \<rparr>"

text \<open>
  One turn of the body of the main loop, entered with a non-empty queue, after
  \<open>hops++\<close>. It ends the simulation (\<open>Inl\<close>: the outcome and the state) or goes on to
  the next test of the loop condition (\<open>Inr\<close>: the state and the visited keys). The
  outcome is \<open>Inr r\<close> for a returned result \<open>r\<close> and \<open>Inl TypeError\<close> where the source
  would read a property of the \<open>undefined\<close> that \<open>dequeue()!\<close> lets through.
\<close>

definition loop_body ::
  "(nat \<Rightarrow> string) \<Rightarrow> Simulator \<Rightarrow> string set \<Rightarrow>
   ((error + SimulationResult) \<times> Simulator) + (Simulator \<times> string set)" where
  "loop_body gen s visitedStates =
     (case dequeue (s_eventQueue s) of
        (None, q1) \<Rightarrow> Inl (Inl TypeError, s\<lparr> s_eventQueue := q1 \<rparr>)
      | (Some event, q1) \<Rightarrow>
          (let s1 = s\<lparr> s_eventQueue := tick q1 \<rparr>;
               stateKey = e_nodeId event @ ''-'' @ e_interfaceId event @ ''-'' @
                          p_id (e_packet event)
           in if stateKey \<in> visitedStates
              then Inl (Inr \<lparr> success = False, delivered = False, blocked = False,
                               loop = True, trace = s_trace s1,
                               reason = ''Loop detected'' \<rparr>, s1)
              else
                (let visited1 = insert stateKey visitedStates
                 in case getDevice s1 (e_nodeId event) of
                      None \<Rightarrow> Inr (s1, visited1)
                    | Some device \<Rightarrow>
                        (let (processResult, s2) =
                               processAtDevice gen s1 device (e_interfaceId event)
                                 (e_packet event) (getTime (s_eventQueue s1));
                             s3 = s2\<lparr> s_trace := s_trace s2 @ dtrace processResult \<rparr>
                         in if ddelivered processResult
                            then Inl (Inr \<lparr> success = True, delivered = True,
                                             blocked = False, loop = False,
                                             trace = s_trace s3,
                                             reason = ''Packet delivered to '' @
                                                      getLabel device \<rparr>, s3)
                            else Inr (s3\<lparr> s_eventQueue :=
                                          fold enqueue (events processResult)
                                            (s_eventQueue s3) \<rparr>,
                                      visited1)))))"

text \<open>
  The main loop: \<open>while (!isEmpty() && hops < maxHops)\<close>, each turn adding one to \<open>hops\<close>.
  It returns \<open>Some\<close> of the outcome of the turn that ended the simulation, or \<open>None\<close> when
  the loop condition fails, with the hop count and the state.
\<close>

function main_loop ::
  "(nat \<Rightarrow> string) \<Rightarrow> nat \<Rightarrow> Simulator \<Rightarrow> nat \<Rightarrow> string set \<Rightarrow>
   (error + SimulationResult) option \<times> nat \<times> Simulator" where
  "main_loop gen maxH s hops visitedStates =
     (if \<not> isEmpty (s_eventQueue s) \<and> hops < maxH
      then (case loop_body gen s visitedStates of
              Inl (ended, s') \<Rightarrow> (Some ended, hops + 1, s')
            | Inr (s', visited') \<Rightarrow> main_loop gen maxH s' (hops + 1) visited')
      else (None, hops, s))"
  by pat_completeness auto
termination
  by (relation "measure (\<lambda>(gen, maxH, s, hops, visitedStates). maxH - hops)") auto

text \<open>The code after the loop: the hop cap, then the classification of the last hop.\<close>

definition conclude :: "nat \<Rightarrow> Simulator \<Rightarrow> nat \<Rightarrow> SimulationResult" where
  "conclude maxH s hops =
     (if hops \<ge> maxH
      then \<lparr> success = False, delivered = False, blocked = False, loop = True,
             trace = s_trace s, reason = ''Max hops exceeded (possible loop)'' \<rparr>
      else (let lastTrace = (if s_trace s = [] then None else Some (last (s_trace s)));
                wasBlocked = (map_option h_action lastTrace = Some AclDeny \<or>
                              map_option h_action lastTrace = Some Drop)
            in \<lparr> success = False, delivered = False, blocked = wasBlocked, loop = False,
                 trace = s_trace s,
                 reason = (if wasBlocked then h_reason (the lastTrace)
                           else ''Packet did not reach destination'') \<rparr>))"

text \<open>The main loop with the code after it, from a given state of the queue.\<close>

definition run_loop ::
  "(nat \<Rightarrow> string) \<Rightarrow> Simulator \<Rightarrow> (error + SimulationResult) \<times> Simulator" where
  "run_loop gen s =
     (case main_loop gen (maxHops (s_options s)) s 0 {} of
        (Some ended, hops, s') \<Rightarrow> (ended, s')
      | (None, hops, s') \<Rightarrow> (Inr (conclude (maxHops (s_options s)) s' hops), s'))"

definition isHostDevice :: "Device \<Rightarrow> bool" where
  "isHostDevice d = (case d of HostDevice b \<Rightarrow> True | _ \<Rightarrow> False)"

definition simulate ::
  "(nat \<Rightarrow> string) \<Rightarrow> Simulator \<Rightarrow> PacketSpec \<Rightarrow> (error + SimulationResult) \<times> Simulator" where
  "simulate gen s0 packetSpec =
     (let s = s0\<lparr> s_trace := [], s_eventQueue := clear (s_eventQueue s0) \<rparr> in
      case getNodeById (nodes (s_topology s)) (ps_srcNodeId packetSpec) of
        None \<Rightarrow> (Inr (failure (''Source node '' @ ps_srcNodeId packetSpec @ '' not found'')), s)
      | Some srcNode \<Rightarrow>
      (case getNodeById (nodes (s_topology s)) (ps_dstNodeId packetSpec) of
        None \<Rightarrow>
          (Inr (failure (''Destination node '' @ ps_dstNodeId packetSpec @ '' not found'')), s)
      | Some dstNode \<Rightarrow>
      if \<not> isReachable (s_graphAnalyzer s) (n_id srcNode) (n_id dstNode)
      then (Inr (failure (''No path exists between '' @ n_label srcNode @ '' and '' @
                          n_label dstNode)), s)
      else
      (case getDevice s (n_id srcNode) of
        None \<Rightarrow> (Inr (failure ''Source device not found''), s)
      | Some srcDevice \<Rightarrow>
          (let dstIface = js_nth (n_interfaces dstNode) 0;
               dstMac = (if truthy_str (map_option i_mac dstIface)
                         then i_mac (the dstIface) else ''FF:FF:FF:FF:FF:FF'');
               dstIfaceIp = (case dstIface of None \<Rightarrow> None | Some i \<Rightarrow> iface_ip_addr i);
               dstIp = (if truthy_str (ps_dstIp packetSpec) then the (ps_dstIp packetSpec)
                        else if truthy_str dstIfaceIp then the dstIfaceIp
                        else [])
           in if isHostDevice srcDevice
              then (let (sendResult, k') =
                          sendPacket gen (s_ids s) (base_of srcDevice) dstMac dstIp
                            (links (s_topology s)) (getTime (s_eventQueue s))
                            (case ps_proto packetSpec of None \<Rightarrow> icmp | Some p \<Rightarrow> p)
                            (ps_srcPort packetSpec) (ps_dstPort packetSpec);
                        s1 = s\<lparr> s_ids := k', s_trace := s_trace s @ dtrace sendResult \<rparr>;
                        s2 = s1\<lparr> s_eventQueue :=
                                  fold enqueue (events sendResult) (s_eventQueue s1) \<rparr>
                    in run_loop gen s2)
              else (Inr (failure ''Source must be a host device (host, phone, server, laptop)''),
                    s)))))"

section \<open>Topology conversion\<close>

text \<open>
  The part of an editor node and of an editor edge that \<open>convertTopology\<close> reads. The
  interface list is \<open>node.data.config?.interfaces || []\<close>.
\<close>

definition getInterfaceForConnection :: "SimNode list \<Rightarrow> string \<Rightarrow> string option \<Rightarrow> string" where
  "getInterfaceForConnection ns nid handleId =
     (case find (\<lambda>n. n_id n = nid) ns of
        None \<Rightarrow> ''eth0''
      | Some node \<Rightarrow>
          if truthy_str handleId \<and> list_ex (\<lambda>i. i_id i = the handleId) (n_interfaces node)
          then the handleId
          else (case js_nth (n_interfaces node) 0 of
                  None \<Rightarrow> ''eth0''
                | Some i \<Rightarrow> if i_id i = [] then ''eth0'' else i_id i))"

record Edge =
  edge_id :: string
  edge_source :: string
  edge_target :: string
  edge_sourceHandle :: "string option"
  edge_targetHandle :: "string option"

definition convert_links :: "SimNode list \<Rightarrow> Edge list \<Rightarrow> SimLink list" where
  "convert_links simNodes edges =
     map (\<lambda>edge.
            \<lparr> l_id = edge_id edge,
              l_source = \<lparr> nodeId = edge_source edge,
                           interfaceId = getInterfaceForConnection simNodes (edge_source edge)
                                           (edge_sourceHandle edge) \<rparr>,
              l_target = \<lparr> nodeId = edge_target edge,
                           interfaceId = getInterfaceForConnection simNodes (edge_target edge)
                                           (edge_targetHandle edge) \<rparr> \<rparr>)
       edges"

text \<open>
  \<open>getPortId\<close> of the topology store, which the editor applies to a handle id where it
  needs the port: \<open>handleId.replace(/-source$|-target$/, '')\<close>.
\<close>

definition strip_suffix :: "string \<Rightarrow> string \<Rightarrow> string option" where
  "strip_suffix suf s =
     (if length suf \<le> length s \<and> drop (length s - length suf) s = suf
      then Some (take (length s - length suf) s) else None)"

definition getPortId :: "string option \<Rightarrow> string option" where
  "getPortId handleId =
     (if \<not> truthy_str handleId then None
      else (case strip_suffix ''-source'' (the handleId) of
              Some p \<Rightarrow> Some p
            | None \<Rightarrow>
                (case strip_suffix ''-target'' (the handleId) of
                   Some p \<Rightarrow> Some p
                 | None \<Rightarrow> handleId)))"

section \<open>The functional router behaviour (simulator/behaviors/router.ts)\<close>

text \<open>
  \<open>routerProcess\<close> has the steps of \<open>RouterDevice.processPacket\<close>; its directly-connected
  lookup differs: it compares the first \<open>floor(prefix / 8)\<close> dotted parts of the two
  addresses as text. A prefix that does not parse leaves the inner loop without a turn,
  so the interface matches.
\<close>

definition octets_match :: "string \<Rightarrow> string \<Rightarrow> int option \<Rightarrow> bool" where
  "octets_match dIp ifaceIp subnetMask =
     (let dstOctets = str_split CHR ''.'' dIp;
          ifaceOctets = str_split CHR ''.'' ifaceIp
      in case subnetMask of
           None \<Rightarrow> True
         | Some m \<Rightarrow>
             list_all (\<lambda>i. js_nth dstOctets i = js_nth ifaceOctets i) [0 ..< nat (m div 8)])"

fun routerProcess_direct ::
  "SimNode \<Rightarrow> SimInterface list \<Rightarrow> string \<Rightarrow> string \<Rightarrow> SimLink list \<Rightarrow> Packet \<Rightarrow> nat \<Rightarrow>
   (OutEvent \<times> TraceHop) option" where
  "routerProcess_direct node [] iid dIp lnks routedPacket time = None"
| "routerProcess_direct node (iface # rest) iid dIp lnks routedPacket time =
     (if truthy_str (i_ip iface)
      then (let parts = str_split CHR ''/'' (the (i_ip iface));
                ifaceIp = hd parts;
                subnetMask = parseInt 10 (js_nth parts 1)
            in if octets_match dIp ifaceIp subnetMask \<and> i_id iface \<noteq> iid
               then (let forwardedPacket = routedPacket\<lparr> p_srcMac := i_mac iface \<rparr> in
                     case getConnectedInterface lnks (n_id node) (i_id iface) of
                       Some connected \<Rightarrow>
                         Some (\<lparr> ev_packet = forwardedPacket, ev_nodeId = nodeId connected,
                                 ev_interfaceId = interfaceId connected \<rparr>,
                               \<lparr> h_time = time, h_nodeId = n_id node, h_nodeLabel = n_label node,
                                 h_interfaceId = i_id iface, h_action = Route,
                                 h_reason = ''Routing to directly connected network via '' @
                                            i_id iface,
                                 h_packet = forwardedPacket \<rparr>)
                     | None \<Rightarrow> routerProcess_direct node rest iid dIp lnks routedPacket time)
               else routerProcess_direct node rest iid dIp lnks routedPacket time)
      else routerProcess_direct node rest iid dIp lnks routedPacket time)"

section \<open>Properties: definitions that follow the specification\<close>

subsection \<open>Longest-prefix match\<close>


definition prefix_len :: "StaticRoute \<Rightarrow> int" where
  "prefix_len r = (case cidr_prefix (sr_prefix r) of None \<Rightarrow> - 1 | Some p \<Rightarrow> p)"

definition longest_prefix_first :: "StaticRoute list \<Rightarrow> StaticRoute option" where
  "longest_prefix_first cs = find (\<lambda>r. \<forall>c \<in> set cs. prefix_len c \<le> prefix_len r) cs"



subsection \<open>ACL rule matching\<close>

text \<open>
  The clauses of a rule in the specification's words. Protocol: absent or \<open>any\<close> matches
  anything, otherwise it equals the packet's protocol. Address: absent or \<open>any\<close> matches;
  with a slash, CIDR containment; otherwise exact equality with the packet's address.
  Port: absent matches, otherwise equality. \<open>rule_matches_spec\<close> is their conjunction.
\<close>

definition clause_proto :: "string option \<Rightarrow> Proto \<Rightarrow> bool" where
  "clause_proto rp pp = (\<not> truthy_str rp \<or> rp = Some ''any'' \<or> rp = Some (proto_str pp))"

definition clause_ip_spec :: "string option \<Rightarrow> string option \<Rightarrow> bool" where
  "clause_ip_spec rip pip =
     (\<not> truthy_str rip \<or> rip = Some ''any'' \<or>
      (if includes_char (the rip) CHR ''/''
       then truthy_str pip \<and> ipInSubnet (the pip) (the rip)
       else pip = rip))"

definition clause_port :: "int option \<Rightarrow> int option \<Rightarrow> bool" where
  "clause_port rport pport = (rport = None \<or> pport = rport)"

definition rule_matches_spec :: "Packet \<Rightarrow> AclRule \<Rightarrow> bool" where
  "rule_matches_spec packet rule =
     (clause_proto (r_proto rule) (p_proto packet) \<and>
      clause_ip_spec (r_srcIp rule) (p_srcIp packet) \<and>
      clause_ip_spec (r_dstIp rule) (p_dstIp packet) \<and>
      clause_port (r_srcPort rule) (p_srcPort packet) \<and>
      clause_port (r_dstPort rule) (p_dstPort packet))"

text \<open>
  The address clause as the code evaluates it: a packet that lacks the address passes
  the clause. \<open>rule_matches\<close> is the conjunction with this clause.
\<close>

definition clause_ip :: "string option \<Rightarrow> string option \<Rightarrow> bool" where
  "clause_ip rip pip = (\<not> truthy_str pip \<or> clause_ip_spec rip pip)"

definition rule_matches :: "Packet \<Rightarrow> AclRule \<Rightarrow> bool" where
  "rule_matches packet rule =
     (clause_proto (r_proto rule) (p_proto packet) \<and>
      clause_ip (r_srcIp rule) (p_srcIp packet) \<and>
      clause_ip (r_dstIp rule) (p_dstIp packet) \<and>
      clause_port (r_srcPort rule) (p_srcPort packet) \<and>
      clause_port (r_dstPort rule) (p_dstPort packet))"

text \<open>
  The decision of a rule list under a matching predicate: the action of the first
  matching rule in ascending order of \<open>order\<close>, the default policy when none matches.
\<close>

definition acl_decision ::
  "(Packet \<Rightarrow> AclRule \<Rightarrow> bool) \<Rightarrow> AclRule list \<Rightarrow> Policy \<Rightarrow> Packet \<Rightarrow> Policy" where
  "acl_decision m rules defaultPolicy packet =
     (case find (m packet) (sort_key r_order rules) of
        None \<Rightarrow> defaultPolicy
      | Some rule \<Rightarrow> r_action rule)"

text \<open>Example data: a firewall between two hosts, its rules, and two packets.\<close>

definition fw_base :: DeviceBase where
  "fw_base =
     \<lparr> d_id = ''fw'', d_label = ''F'', d_type = firewall,
       d_interfaces =
         [\<lparr> i_id = ''eth0'', i_mac = ''02:00:00:00:00:10'', i_ip = Some ''10.0.0.1/24'',
            i_vlan = None, i_portMode = None, i_allowedVlans = None \<rparr>,
          \<lparr> i_id = ''eth1'', i_mac = ''02:00:00:00:00:11'', i_ip = Some ''10.0.1.1/24'',
            i_vlan = None, i_portMode = None, i_allowedVlans = None \<rparr>] \<rparr>"

definition fw_links :: "SimLink list" where
  "fw_links =
     [\<lparr> l_id = ''l1'', l_source = \<lparr> nodeId = ''a'', interfaceId = ''eth0'' \<rparr>,
        l_target = \<lparr> nodeId = ''fw'', interfaceId = ''eth0'' \<rparr> \<rparr>,
      \<lparr> l_id = ''l2'', l_source = \<lparr> nodeId = ''fw'', interfaceId = ''eth1'' \<rparr>,
        l_target = \<lparr> nodeId = ''b'', interfaceId = ''eth0'' \<rparr> \<rparr>]"

definition rule_deny_icmp :: AclRule where
  "rule_deny_icmp =
     \<lparr> r_id = ''r1'', r_order = 1, r_action = deny, r_srcIp = None,
       r_dstIp = Some ''10.0.1.10'', r_proto = Some ''icmp'', r_srcPort = None,
       r_dstPort = None \<rparr>"

definition rule_deny_src :: AclRule where
  "rule_deny_src =
     \<lparr> r_id = ''r2'', r_order = 1, r_action = deny, r_srcIp = Some ''10.0.0.10'',
       r_dstIp = None, r_proto = None, r_srcPort = None, r_dstPort = None \<rparr>"

definition ping_packet :: Packet where
  "ping_packet =
     \<lparr> p_id = ''pkt-1'', p_srcMac = ''02:00:00:00:00:01'', p_dstMac = ''02:00:00:00:00:02'',
       p_srcIp = Some ''10.0.0.10'', p_dstIp = Some ''10.0.1.10'', p_vlan = None,
       p_proto = icmp, p_srcPort = None, p_dstPort = None, p_ttl = 64, p_payload = None \<rparr>"

definition arp_packet :: Packet where
  "arp_packet =
     \<lparr> p_id = ''pkt-2'', p_srcMac = ''02:00:00:00:00:01'', p_dstMac = ''FF:FF:FF:FF:FF:FF'',
       p_srcIp = None, p_dstIp = None, p_vlan = None,
       p_proto = arp, p_srcPort = None, p_dstPort = None, p_ttl = 64, p_payload = None \<rparr>"

subsection \<open>Topology conversion\<close>

definition conv_nodes :: "SimNode list" where
  "conv_nodes =
     [\<lparr> n_id = ''r1'', n_type = router, n_label = ''R1'',
        n_interfaces =
          [\<lparr> i_id = ''eth0'', i_mac = ''02:00:00:00:00:20'', i_ip = Some ''10.0.0.1/24'',
             i_vlan = None, i_portMode = None, i_allowedVlans = None \<rparr>,
           \<lparr> i_id = ''eth1'', i_mac = ''02:00:00:00:00:21'', i_ip = Some ''10.0.1.1/24'',
             i_vlan = None, i_portMode = None, i_allowedVlans = None \<rparr>],
        n_macLearning = None, n_vlanDatabase = None, n_staticRoutes = None,
        n_aclRules = None, n_defaultPolicy = None \<rparr>]"

subsection \<open>Switch: admissible egress and the MAC table\<close>

text \<open>
  An interface admissible for a VLAN in the claim's words: an access port whose
  configured VLAN is that VLAN, or a trunk port with no allowed-VLAN restriction or with
  the VLAN listed. \<open>admissible\<close> adds what the code also admits: a port with no port
  mode, for VLAN 1.
\<close>

definition admissible_spec :: "SimInterface \<Rightarrow> int \<Rightarrow> bool" where
  "admissible_spec iface v =
     (i_portMode iface = Some access \<and> i_vlan iface = Some v \<or>
      i_portMode iface = Some trunk \<and>
        (i_allowedVlans iface = None \<or> v \<in> set (the (i_allowedVlans iface))))"

definition admissible :: "SimInterface \<Rightarrow> int \<Rightarrow> bool" where
  "admissible iface v = (admissible_spec iface v \<or> i_portMode iface = None \<and> v = 1)"

text \<open>
  An event is emitted through an interface of the device when the interface is not the
  ingress and the peer on its link is the event's target.
\<close>

definition emitted_through :: "DeviceBase \<Rightarrow> SimLink list \<Rightarrow> string \<Rightarrow> OutEvent \<Rightarrow> SimInterface \<Rightarrow> bool" where
  "emitted_through b lnks ingressId ev iface =
     (i_id iface \<noteq> ingressId \<and>
      findConnectedInterface b lnks (i_id iface) =
        Some \<lparr> nodeId = ev_nodeId ev, interfaceId = ev_interfaceId ev \<rparr>)"

definition has_learn :: "TraceHop list \<Rightarrow> bool" where
  "has_learn hops = list_ex (\<lambda>h. h_action h = Learn) hops"

text \<open>Example data: a switch with two access ports and two ports without a mode.\<close>

definition sw_base :: DeviceBase where
  "sw_base =
     \<lparr> d_id = ''sw1'', d_label = ''Switch 1'', d_type = switch,
       d_interfaces =
         [\<lparr> i_id = ''gi0/1'', i_mac = ''00:00:00:00:00:01'', i_ip = None,
            i_vlan = Some 10, i_portMode = Some access, i_allowedVlans = None \<rparr>,
          \<lparr> i_id = ''gi0/2'', i_mac = ''00:00:00:00:00:02'', i_ip = None,
            i_vlan = Some 10, i_portMode = Some access, i_allowedVlans = None \<rparr>,
          \<lparr> i_id = ''gi0/3'', i_mac = ''00:00:00:00:00:03'', i_ip = None,
            i_vlan = Some 20, i_portMode = Some access, i_allowedVlans = None \<rparr>,
          \<lparr> i_id = ''gi0/4'', i_mac = ''00:00:00:00:00:04'', i_ip = None,
            i_vlan = None, i_portMode = Some trunk, i_allowedVlans = Some [10, 20] \<rparr>] \<rparr>"

definition sw_links :: "SimLink list" where
  "sw_links =
     [\<lparr> l_id = ''link1'', l_source = \<lparr> nodeId = ''sw1'', interfaceId = ''gi0/1'' \<rparr>,
        l_target = \<lparr> nodeId = ''host1'', interfaceId = ''eth0'' \<rparr> \<rparr>,
      \<lparr> l_id = ''link2'', l_source = \<lparr> nodeId = ''sw1'', interfaceId = ''gi0/2'' \<rparr>,
        l_target = \<lparr> nodeId = ''host2'', interfaceId = ''eth0'' \<rparr> \<rparr>,
      \<lparr> l_id = ''link3'', l_source = \<lparr> nodeId = ''sw1'', interfaceId = ''gi0/3'' \<rparr>,
        l_target = \<lparr> nodeId = ''host3'', interfaceId = ''eth0'' \<rparr> \<rparr>,
      \<lparr> l_id = ''link4'', l_source = \<lparr> nodeId = ''sw1'', interfaceId = ''gi0/4'' \<rparr>,
        l_target = \<lparr> nodeId = ''sw2'', interfaceId = ''gi0/1'' \<rparr> \<rparr>]"

definition bcast_packet :: Packet where
  "bcast_packet =
     \<lparr> p_id = ''pkt1'', p_srcMac = ''AA:BB:CC:DD:EE:FF'', p_dstMac = ''FF:FF:FF:FF:FF:FF'',
       p_srcIp = None, p_dstIp = None, p_vlan = None,
       p_proto = icmp, p_srcPort = None, p_dstPort = None, p_ttl = 64, p_payload = None \<rparr>"

definition plain_base :: DeviceBase where
  "plain_base =
     \<lparr> d_id = ''sw9'', d_label = ''Switch 9'', d_type = switch,
       d_interfaces =
         [\<lparr> i_id = ''p1'', i_mac = ''00:00:00:00:09:01'', i_ip = None,
            i_vlan = None, i_portMode = None, i_allowedVlans = None \<rparr>,
          \<lparr> i_id = ''p2'', i_mac = ''00:00:00:00:09:02'', i_ip = None,
            i_vlan = None, i_portMode = None, i_allowedVlans = None \<rparr>] \<rparr>"

definition plain_links :: "SimLink list" where
  "plain_links =
     [\<lparr> l_id = ''k1'', l_source = \<lparr> nodeId = ''h1'', interfaceId = ''eth0'' \<rparr>,
        l_target = \<lparr> nodeId = ''sw9'', interfaceId = ''p1'' \<rparr> \<rparr>,
      \<lparr> l_id = ''k2'', l_source = \<lparr> nodeId = ''sw9'', interfaceId = ''p2'' \<rparr>,
        l_target = \<lparr> nodeId = ''h2'', interfaceId = ''eth0'' \<rparr> \<rparr>]"

definition ids_demo :: "nat \<Rightarrow> string" where
  "ids_demo n = ''pkt-'' @ show_nat n"

subsection \<open>Directly connected lookup\<close>

text \<open>
  Standard CIDR containment on 32-bit addresses: the leading \<open>p\<close> bits agree. An
  interface is a candidate of the lookup in the claim's words when it is not the
  ingress, has an address and its subnet contains the destination; the lookups of the
  code also ask for a peer on the interface's link.
\<close>

definition cidr_contains :: "nat \<Rightarrow> 32 word \<Rightarrow> 32 word \<Rightarrow> bool" where
  "cidr_contains p net a = (drop_bit (32 - p) a = drop_bit (32 - p) net)"

definition direct_candidate_spec :: "string \<Rightarrow> string \<Rightarrow> SimInterface \<Rightarrow> bool" where
  "direct_candidate_spec iid dIp iface =
     (i_id iface \<noteq> iid \<and> truthy_str (i_ip iface) \<and> ipInSubnet dIp (the (i_ip iface)))"

definition direct_candidate :: "DeviceBase \<Rightarrow> SimLink list \<Rightarrow> string \<Rightarrow> string \<Rightarrow> SimInterface \<Rightarrow> bool" where
  "direct_candidate b lnks iid dIp iface =
     (direct_candidate_spec iid dIp iface \<and> findConnectedInterface b lnks (i_id iface) \<noteq> None)"

definition octet_candidate :: "SimNode \<Rightarrow> SimLink list \<Rightarrow> string \<Rightarrow> string \<Rightarrow> SimInterface \<Rightarrow> bool" where
  "octet_candidate node lnks iid dIp iface =
     (i_id iface \<noteq> iid \<and> truthy_str (i_ip iface) \<and>
      octets_match dIp (cidr_ip (the (i_ip iface))) (cidr_prefix (the (i_ip iface))) \<and>
      getConnectedInterface lnks (n_id node) (i_id iface) \<noteq> None)"

text \<open>Example data: a router with three interfaces, the second without a link.\<close>

definition rt_ifaces :: "SimInterface list" where
  "rt_ifaces =
     [\<lparr> i_id = ''eth0'', i_mac = ''02:00:00:00:01:00'', i_ip = Some ''10.0.0.1/24'',
        i_vlan = None, i_portMode = None, i_allowedVlans = None \<rparr>,
      \<lparr> i_id = ''eth1'', i_mac = ''02:00:00:00:01:01'', i_ip = Some ''10.0.1.1/24'',
        i_vlan = None, i_portMode = None, i_allowedVlans = None \<rparr>,
      \<lparr> i_id = ''eth2'', i_mac = ''02:00:00:00:01:02'', i_ip = Some ''10.0.1.2/24'',
        i_vlan = None, i_portMode = None, i_allowedVlans = None \<rparr>]"

definition rt_base :: DeviceBase where
  "rt_base = \<lparr> d_id = ''r'', d_label = ''R'', d_type = router, d_interfaces = rt_ifaces \<rparr>"

definition rt_links :: "SimLink list" where
  "rt_links =
     [\<lparr> l_id = ''l1'', l_source = \<lparr> nodeId = ''a'', interfaceId = ''eth0'' \<rparr>,
        l_target = \<lparr> nodeId = ''r'', interfaceId = ''eth0'' \<rparr> \<rparr>,
      \<lparr> l_id = ''l2'', l_source = \<lparr> nodeId = ''r'', interfaceId = ''eth2'' \<rparr>,
        l_target = \<lparr> nodeId = ''b'', interfaceId = ''eth0'' \<rparr> \<rparr>]"

definition rt_node25 :: SimNode where
  "rt_node25 =
     \<lparr> n_id = ''r'', n_type = router, n_label = ''R'',
       n_interfaces =
         [\<lparr> i_id = ''eth0'', i_mac = ''02:00:00:00:01:00'', i_ip = Some ''192.168.0.1/24'',
            i_vlan = None, i_portMode = None, i_allowedVlans = None \<rparr>,
          \<lparr> i_id = ''eth2'', i_mac = ''02:00:00:00:01:02'', i_ip = Some ''10.0.0.1/25'',
            i_vlan = None, i_portMode = None, i_allowedVlans = None \<rparr>],
       n_macLearning = None, n_vlanDatabase = None, n_staticRoutes = None,
       n_aclRules = None, n_defaultPolicy = None \<rparr>"

definition rt_packet :: Packet where
  "rt_packet =
     \<lparr> p_id = ''pkt-7'', p_srcMac = ''02:00:00:00:00:0A'', p_dstMac = ''02:00:00:00:00:0B'',
       p_srcIp = Some ''10.0.0.10'', p_dstIp = Some ''10.0.1.50'', p_vlan = None,
       p_proto = icmp, p_srcPort = None, p_dstPort = None, p_ttl = 64, p_payload = None \<rparr>"

subsection \<open>Driver\<close>

text \<open>
  Two nodes are directly linked in a topology when a link joins them; being in one
  connected component of the node/link graph is the reflexive transitive closure of that.
\<close>

definition directly_linked :: "SimTopology \<Rightarrow> string \<Rightarrow> string \<Rightarrow> bool" where
  "directly_linked topology a b =
     list_ex (\<lambda>l. nodeId (l_source l) = a \<and> nodeId (l_target l) = b \<or>
                  nodeId (l_source l) = b \<and> nodeId (l_target l) = a)
       (links topology)"

definition same_component :: "SimTopology \<Rightarrow> string \<Rightarrow> string \<Rightarrow> bool" where
  "same_component topology a b = ((a, b) \<in> {(x, y). directly_linked topology x y}\<^sup>*)"

text \<open>Example data: two hosts joined by a link; a host on a router; a queued packet.\<close>

definition host_node :: "string \<Rightarrow> string \<Rightarrow> string \<Rightarrow> string \<Rightarrow> SimNode" where
  "host_node nid lbl mac ip =
     \<lparr> n_id = nid, n_type = host, n_label = lbl,
       n_interfaces = [\<lparr> i_id = ''eth0'', i_mac = mac, i_ip = Some ip, i_vlan = None,
                         i_portMode = None, i_allowedVlans = None \<rparr>],
       n_macLearning = None, n_vlanDatabase = None, n_staticRoutes = None,
       n_aclRules = None, n_defaultPolicy = None \<rparr>"

definition topo_pair :: SimTopology where
  "topo_pair =
     \<lparr> nodes = [host_node ''a'' ''A'' ''02:AA:00:00:00:01'' ''192.168.1.10/24'',
                 host_node ''b'' ''B'' ''02:AA:00:00:00:02'' ''192.168.1.11/24''],
       links = [\<lparr> l_id = ''l1'', l_source = \<lparr> nodeId = ''a'', interfaceId = ''eth0'' \<rparr>,
                   l_target = \<lparr> nodeId = ''b'', interfaceId = ''eth0'' \<rparr> \<rparr>] \<rparr>"

definition spec_pair :: PacketSpec where
  "spec_pair =
     \<lparr> ps_srcNodeId = ''a'', ps_dstNodeId = ''b'', ps_srcIp = None, ps_dstIp = None,
       ps_proto = None, ps_srcPort = None, ps_dstPort = None \<rparr>"

definition router_node :: SimNode where
  "router_node =
     \<lparr> n_id = ''r'', n_type = router, n_label = ''R'', n_interfaces = rt_ifaces,
       n_macLearning = None, n_vlanDatabase = None, n_staticRoutes = None,
       n_aclRules = None, n_defaultPolicy = None \<rparr>"

definition topo_router :: SimTopology where
  "topo_router =
     \<lparr> nodes = [host_node ''a'' ''A'' ''02:AA:00:00:00:01'' ''10.0.0.10/24'', router_node],
       links = rt_links \<rparr>"

definition spec_self :: PacketSpec where
  "spec_self =
     \<lparr> ps_srcNodeId = ''a'', ps_dstNodeId = ''a'', ps_srcIp = None, ps_dstIp = None,
       ps_proto = None, ps_srcPort = None, ps_dstPort = None \<rparr>"


definition result_summary ::
  "error + SimulationResult \<Rightarrow> error + bool \<times> bool \<times> bool \<times> bool \<times> TraceAction list \<times> string" where
  "result_summary res =
     map_sum id
       (\<lambda>r. (success r, delivered r, blocked r, loop r, map h_action (trace r), reason r)) res"

section \<open>Basic facts\<close>

lemma createTraceHop_sel [simp]:
  "h_action (createTraceHop b time iid a rsn packet) = a"
  "h_reason (createTraceHop b time iid a rsn packet) = rsn"
  "h_packet (createTraceHop b time iid a rsn packet) = packet"
  "h_interfaceId (createTraceHop b time iid a rsn packet) = iid"
  "h_nodeId (createTraceHop b time iid a rsn packet) = d_id b"
  "h_time (createTraceHop b time iid a rsn packet) = time"
  by (simp_all add: createTraceHop_def)

lemma createForwardEvent_sel [simp]:
  "ev_packet (createForwardEvent packet n i) = packet"
  "ev_nodeId (createForwardEvent packet n i) = n"
  "ev_interfaceId (createForwardEvent packet n i) = i"
  by (simp_all add: createForwardEvent_def)

section \<open>Static-route lookup\<close>



lemma lpf_single: "longest_prefix_first [r] = Some r"
  by (simp add: longest_prefix_first_def)







section \<open>Firewall rule evaluation\<close>

lemma matchesRule_clauses: "matchesRule packet rule = rule_matches packet rule"
  unfolding matchesRule_def rule_matches_def clause_proto_def clause_ip_def clause_ip_spec_def
    clause_port_def
  by (auto simp: truthy_str_def split: option.splits)

lemma matchAclRules_loop_find:
  "matchAclRules_loop rs packet pol =
     (case find (matchesRule packet) rs of
        None \<Rightarrow> \<lparr> matched = False, action = pol, matchedRule = None \<rparr>
      | Some r \<Rightarrow> \<lparr> matched = True, action = r_action r, matchedRule = Some r \<rparr>)"
  by (induction rs) simp_all

lemma matchAclRules_find:
  "matchAclRules rules pol packet =
     (case find (rule_matches packet) (sort_key r_order rules) of
        None \<Rightarrow> \<lparr> matched = False, action = pol, matchedRule = None \<rparr>
      | Some r \<Rightarrow> \<lparr> matched = True, action = r_action r, matchedRule = Some r \<rparr>)"
proof -
  have "matchesRule packet = rule_matches packet"
    by (rule ext) (rule matchesRule_clauses)
  then show ?thesis
    by (simp add: matchAclRules_def matchAclRules_loop_find)
qed

lemma firewall_deny_result:
  assumes "getInterface b iid = Some ingress" and "\<not> isPacketForFirewall b packet"
    and "action (matchAclRules rules pol packet) = deny"
  shows "events (firewall_processPacket b rules pol iid packet lnks time) = []"
    and "map h_action (dtrace (firewall_processPacket b rules pol iid packet lnks time)) =
         [Receive, AclDeny]"
    and "\<not> ddelivered (firewall_processPacket b rules pol iid packet lnks time)"
  using assms by (simp_all add: firewall_processPacket_def Let_def)

lemma firewall_allow_result:
  assumes "getInterface b iid = Some ingress" and "\<not> isPacketForFirewall b packet"
    and "action (matchAclRules rules pol packet) = allow"
  shows "take 2 (map h_action (dtrace (firewall_processPacket b rules pol iid packet lnks time))) =
         [Receive, AclAllow]"
    and "\<not> ddelivered (firewall_processPacket b rules pol iid packet lnks time)"
  using assms by (auto simp: firewall_processPacket_def Let_def split: option.splits)

text \<open>
  C7 (amended). The rules are tried in ascending order of \<open>order\<close> (a stable sort of the
  configured list); a packet matches a rule iff the protocol clause, both address clauses
  and both port clauses hold, where an address clause also holds for a packet that lacks
  that address; the first matching rule's action decides, the default policy when no rule
  matches; and for a packet that is not addressed to the firewall and arrives on one of
  its interfaces, the call ends in an \<open>acl-deny\<close> hop with no event when the decision is
  deny, and records \<open>acl-allow\<close> otherwise.
\<close>

theorem firewall_first_match_decides:
  assumes "getInterface b iid = Some ingress" and "\<not> isPacketForFirewall b packet"
  shows "sorted (map r_order (sort_key r_order rules)) \<and>
         mset (sort_key r_order rules) = mset rules \<and>
         (\<forall>rule. matchesRule packet rule = rule_matches packet rule) \<and>
         matchedRule (matchAclRules rules pol packet) =
           find (rule_matches packet) (sort_key r_order rules) \<and>
         action (matchAclRules rules pol packet) = acl_decision rule_matches rules pol packet \<and>
         (let res = firewall_processPacket b rules pol iid packet lnks time in
          \<not> ddelivered res \<and>
          (if acl_decision rule_matches rules pol packet = deny
           then events res = [] \<and> map h_action (dtrace res) = [Receive, AclDeny]
           else take 2 (map h_action (dtrace res)) = [Receive, AclAllow]))"
proof -
  have dec: "action (matchAclRules rules pol packet) = acl_decision rule_matches rules pol packet"
    by (simp add: matchAclRules_find acl_decision_def split: option.splits)
  have mr: "matchedRule (matchAclRules rules pol packet) =
           find (rule_matches packet) (sort_key r_order rules)"
    by (simp add: matchAclRules_find split: option.splits)
  have res: "(let res = firewall_processPacket b rules pol iid packet lnks time in
          \<not> ddelivered res \<and>
          (if acl_decision rule_matches rules pol packet = deny
           then events res = [] \<and> map h_action (dtrace res) = [Receive, AclDeny]
           else take 2 (map h_action (dtrace res)) = [Receive, AclAllow]))"
  proof (cases "acl_decision rule_matches rules pol packet")
    case allow
    with dec have "action (matchAclRules rules pol packet) = allow" by simp
    from firewall_allow_result [OF assms this] allow show ?thesis
      by (simp add: Let_def)
  next
    case deny
    with dec have "action (matchAclRules rules pol packet) = deny" by simp
    from firewall_deny_result [OF assms this] deny show ?thesis
      by (simp add: Let_def)
  qed
  show ?thesis
    using dec mr res by (simp add: matchesRule_clauses)
qed

theorem firewall_first_match_decides_witness:
  "getInterface fw_base ''eth0'' \<noteq> None \<and> \<not> isPacketForFirewall fw_base ping_packet \<and>
   action (matchAclRules [rule_deny_icmp] allow ping_packet) = deny \<and>
   events (firewall_processPacket fw_base [rule_deny_icmp] allow ''eth0'' ping_packet fw_links 1) = []"
proof -
  have h1: "getInterface fw_base ''eth0'' = Some (hd (d_interfaces fw_base))"
    by code_simp
  have h2: "\<not> isPacketForFirewall fw_base ping_packet"
    by code_simp
  have d: "acl_decision rule_matches [rule_deny_icmp] allow ping_packet = deny"
    by code_simp
  show ?thesis
    using firewall_first_match_decides [OF h1 h2, of "[rule_deny_icmp]" allow fw_links 1] h1 h2 d
    by (simp add: Let_def)
qed

text \<open>
  The claim as the specification words it fails: a rule with an exact source address
  does not match, clause by clause, a packet without a source address, so the default
  policy (allow) would apply; the code matches the rule and denies.
\<close>

theorem firewall_spec_clauses_counterexample:
  "\<not> rule_matches_spec arp_packet rule_deny_src \<and>
   acl_decision rule_matches_spec [rule_deny_src] allow arp_packet = allow \<and>
   matchesRule arp_packet rule_deny_src \<and>
   action (matchAclRules [rule_deny_src] allow arp_packet) = deny"
  by code_simp

text \<open>
  C10. A packet that has no source address passes the source-address clause of every
  rule, and likewise for the destination: the rule matches iff the rule without that
  clause matches. Such a rule, when its other clauses match, is matched, so the list does
  not fall through to the default policy, and a list of that rule alone gives its action.
\<close>

theorem matchesRule_absent_ip_skipped:
  assumes "\<not> truthy_str (p_srcIp packet) \<and> matchesRule packet (rule\<lparr> r_srcIp := None \<rparr>) \<or>
           \<not> truthy_str (p_dstIp packet) \<and> matchesRule packet (rule\<lparr> r_dstIp := None \<rparr>)"
  shows "matchesRule packet rule \<and>
         action (matchAclRules [rule] pol packet) = r_action rule \<and>
         (rule \<in> set rules \<longrightarrow> matched (matchAclRules rules pol packet))"
proof -
  from assms have m': "rule_matches packet rule"
    unfolding matchesRule_clauses rule_matches_def clause_ip_def by auto
  then have m: "matchesRule packet rule"
    by (simp add: matchesRule_clauses)
  have one: "action (matchAclRules [rule] pol packet) = r_action rule"
    using m by (simp add: matchAclRules_def)
  have "matched (matchAclRules rules pol packet)" if "rule \<in> set rules"
  proof -
    from that m' have "\<exists>x \<in> set (sort_key r_order rules). rule_matches packet x"
      by auto
    then have "find (rule_matches packet) (sort_key r_order rules) \<noteq> None"
      unfolding find_None_iff by blast
    then show ?thesis
      by (auto simp: matchAclRules_find split: option.splits)
  qed
  with m one show ?thesis by simp
qed

theorem matchesRule_absent_ip_skipped_witness:
  "\<not> truthy_str (p_srcIp arp_packet) \<and>
   matchesRule arp_packet (rule_deny_src\<lparr> r_srcIp := None \<rparr>) \<and>
   truthy_str (r_srcIp rule_deny_src) \<and>
   matchesRule arp_packet rule_deny_src \<and>
   action (matchAclRules [rule_deny_src] allow arp_packet) = deny"
proof -
  have h: "\<not> truthy_str (p_srcIp arp_packet) \<and>
           matchesRule arp_packet (rule_deny_src\<lparr> r_srcIp := None \<rparr>)"
    by code_simp
  have a: "r_action rule_deny_src = deny" and t: "truthy_str (r_srcIp rule_deny_src)"
    by code_simp+
  from h have "\<not> truthy_str (p_srcIp arp_packet) \<and>
           matchesRule arp_packet (rule_deny_src\<lparr> r_srcIp := None \<rparr>) \<or>
           \<not> truthy_str (p_dstIp arp_packet) \<and>
           matchesRule arp_packet (rule_deny_src\<lparr> r_dstIp := None \<rparr>)"
    by blast
  from matchesRule_absent_ip_skipped [OF this, of allow "[]"] h a t show ?thesis
    by simp
qed

section \<open>Topology conversion\<close>

text \<open>
  C9. The handle of an edge end carries the suffix \<open>-source\<close> or \<open>-target\<close>;
  \<open>getInterfaceForConnection\<close> compares the handle as it is with the interface ids, so
  for the handle \<open>eth1-source\<close> on a node with the interfaces \<open>eth0\<close> and \<open>eth1\<close> it
  falls back to the first interface \<open>eth0\<close>, although the stripped handle, as
  \<open>getPortId\<close> computes it, names the interface \<open>eth1\<close>.
\<close>

theorem getInterfaceForConnection_keeps_suffix:
  "getInterfaceForConnection conv_nodes ''r1'' (Some ''eth1-source'') = ''eth0'' \<and>
   getPortId (Some ''eth1-source'') = Some ''eth1'' \<and>
   getInterfaceForConnection conv_nodes ''r1'' (getPortId (Some ''eth1-source'')) = ''eth1''"
  by code_simp

section \<open>Switch\<close>

lemma canEgressOnInterface_admissible: "canEgressOnInterface iface v = admissible iface v"
proof (cases "i_portMode iface")
  case None
  then show ?thesis
    by (simp add: canEgressOnInterface_def admissible_def admissible_spec_def)
next
  case (Some m)
  then show ?thesis
    by (cases m)
      (auto simp: canEgressOnInterface_def admissible_def admissible_spec_def
            split: option.splits)
qed

lemma flood_loop_through:
  "ev \<in> set (flood_loop b ifaces packet ingressId v lnks) \<Longrightarrow>
   \<exists>iface \<in> set ifaces. canEgressOnInterface iface v \<and> emitted_through b lnks ingressId ev iface"
proof (induction ifaces)
  case Nil
  then show ?case by simp
next
  case (Cons i rest)
  show ?case
  proof (cases "i_id i \<noteq> ingressId \<and> canEgressOnInterface i v")
    case False
    with Cons show ?thesis by (auto split: if_splits)
  next
    case True
    show ?thesis
    proof (cases "findConnectedInterface b lnks (i_id i)")
      case None
      with True Cons show ?thesis by auto
    next
      case (Some c)
      with True Cons.prems have
        "ev = createForwardEvent (prepareEgressPacket packet i) (nodeId c) (interfaceId c) \<or>
         ev \<in> set (flood_loop b rest packet ingressId v lnks)"
        by (simp add: Let_def)
      then show ?thesis
      proof
        assume "ev = createForwardEvent (prepareEgressPacket packet i) (nodeId c) (interfaceId c)"
        with True Some have "emitted_through b lnks ingressId ev i"
          by (simp add: emitted_through_def)
        with True show ?thesis by auto
      next
        assume "ev \<in> set (flood_loop b rest packet ingressId v lnks)"
        from Cons.IH [OF this] show ?thesis by auto
      qed
    qed
  qed
qed

lemma getInterface_mem: "getInterface b iid = Some iface \<Longrightarrow> iface \<in> set (d_interfaces b) \<and> i_id iface = iid"
  by (auto simp: getInterface_def find_Some_iff)

lemma forwardToKnownPort_through:
  "ev \<in> set (fst (forwardToKnownPort b eid packet ingressId v lnks time)) \<Longrightarrow>
   \<exists>iface \<in> set (d_interfaces b). canEgressOnInterface iface v \<and> emitted_through b lnks ingressId ev iface"
  by (auto simp: forwardToKnownPort_def emitted_through_def Let_def
        split: option.splits if_splits dest: getInterface_mem)

lemma switch_events_through:
  assumes "getInterface b iid = Some ingress" and "resolveVlan packet ingress = Some v"
    and "ev \<in> set (events (fst (switch_processPacket gen k b ml iid packet lnks time mt)))"
  shows "\<exists>iface \<in> set (d_interfaces b).
           canEgressOnInterface iface v \<and> emitted_through b lnks iid ev iface"
proof -
  let ?pp = "packet\<lparr> p_vlan := Some v \<rparr>"
  from assms have
    "(\<exists>eid. ev \<in> set (fst (forwardToKnownPort b eid ?pp iid v lnks time))) \<or>
     ev \<in> set (flood_loop b (d_interfaces b) ?pp iid v lnks)"
    by (simp add: switch_processPacket_def Let_def split_def floodPacket_def
          split: if_splits) blast+
  then show ?thesis
    using forwardToKnownPort_through flood_loop_through by blast
qed

text \<open>
  C4 (amended). In one call of the switch on a packet whose ingress resolves to VLAN \<open>v\<close>,
  every event is emitted through an interface other than the ingress that is admissible
  for \<open>v\<close>: an access port configured with \<open>v\<close>, a trunk port without restriction or
  listing \<open>v\<close>, or a port without a port mode when \<open>v\<close> is 1. Hence an end point that
  hangs on the switch only by access ports configured with another VLAN gets no event.
\<close>

theorem switch_egress_admissible:
  assumes "getInterface b iid = Some ingress" and "resolveVlan packet ingress = Some v"
  shows "(\<forall>ev \<in> set (events (fst (switch_processPacket gen k b ml iid packet lnks time mt))).
            \<exists>iface \<in> set (d_interfaces b).
              admissible iface v \<and> emitted_through b lnks iid ev iface) \<and>
         ((\<forall>iface \<in> set (d_interfaces b).
              findConnectedInterface b lnks (i_id iface) = Some dst \<longrightarrow>
              i_portMode iface = Some access \<and> i_vlan iface \<noteq> Some v) \<longrightarrow>
          (\<forall>ev \<in> set (events (fst (switch_processPacket gen k b ml iid packet lnks time mt))).
              \<lparr> nodeId = ev_nodeId ev, interfaceId = ev_interfaceId ev \<rparr> \<noteq> dst))"
proof -
  have through: "\<exists>iface \<in> set (d_interfaces b).
              admissible iface v \<and> emitted_through b lnks iid ev iface"
    if "ev \<in> set (events (fst (switch_processPacket gen k b ml iid packet lnks time mt)))" for ev
    using switch_events_through [OF assms that]
    by (simp add: canEgressOnInterface_admissible)
  have "\<lparr> nodeId = ev_nodeId ev, interfaceId = ev_interfaceId ev \<rparr> \<noteq> dst"
    if iso: "\<forall>iface \<in> set (d_interfaces b).
              findConnectedInterface b lnks (i_id iface) = Some dst \<longrightarrow>
              i_portMode iface = Some access \<and> i_vlan iface \<noteq> Some v"
      and ev: "ev \<in> set (events (fst (switch_processPacket gen k b ml iid packet lnks time mt)))"
    for ev
  proof
    assume eq: "\<lparr> nodeId = ev_nodeId ev, interfaceId = ev_interfaceId ev \<rparr> = dst"
    from through [OF ev] obtain iface where i: "iface \<in> set (d_interfaces b)"
      and a: "admissible iface v" and e: "emitted_through b lnks iid ev iface"
      by blast
    from e eq have "findConnectedInterface b lnks (i_id iface) = Some dst"
      by (simp add: emitted_through_def)
    with iso i have "i_portMode iface = Some access \<and> i_vlan iface \<noteq> Some v"
      by blast
    with a show False
      by (simp add: admissible_def admissible_spec_def)
  qed
  with through show ?thesis by blast
qed

theorem switch_egress_admissible_witness:
  "getInterface sw_base ''gi0/1'' \<noteq> None \<and>
   resolveVlan bcast_packet (hd (d_interfaces sw_base)) = Some 10 \<and>
   map ev_nodeId
     (events (fst (switch_processPacket ids_demo 0 sw_base True ''gi0/1'' bcast_packet sw_links 0
                     (Some Map.empty)))) = [''host2'', ''sw2''] \<and>
   list_all (\<lambda>ev. \<lparr> nodeId = ev_nodeId ev, interfaceId = ev_interfaceId ev \<rparr> \<noteq>
                    \<lparr> nodeId = ''host3'', interfaceId = ''eth0'' \<rparr>)
     (events (fst (switch_processPacket ids_demo 0 sw_base True ''gi0/1'' bcast_packet sw_links 0
                     (Some Map.empty))))"
proof -
  have h1: "getInterface sw_base ''gi0/1'' = Some (hd (d_interfaces sw_base))"
    by code_simp
  have h2: "resolveVlan bcast_packet (hd (d_interfaces sw_base)) = Some 10"
    by code_simp
  have iso: "\<forall>iface \<in> set (d_interfaces sw_base).
              findConnectedInterface sw_base sw_links (i_id iface) =
                Some \<lparr> nodeId = ''host3'', interfaceId = ''eth0'' \<rparr> \<longrightarrow>
              i_portMode iface = Some access \<and> i_vlan iface \<noteq> Some 10"
    by code_simp
  have ev: "map ev_nodeId
     (events (fst (switch_processPacket ids_demo 0 sw_base True ''gi0/1'' bcast_packet sw_links 0
                     (Some Map.empty)))) = [''host2'', ''sw2'']"
    by code_simp
  from switch_egress_admissible [OF h1 h2, of ids_demo 0 True sw_links 0 "Some Map.empty"
      "\<lparr> nodeId = ''host3'', interfaceId = ''eth0'' \<rparr>"] iso
  show ?thesis
    using h1 h2 ev by (simp add: list_all_iff)
qed

text \<open>
  The claim with admissibility as it words it fails on a switch whose ports have no port
  mode: a broadcast arriving on \<open>p1\<close> resolves to VLAN 1 and is flooded through \<open>p2\<close>,
  which is neither an access port nor a trunk port.
\<close>

theorem switch_egress_modeless_counterexample:
  "map (\<lambda>ev. (ev_nodeId ev, ev_interfaceId ev))
     (events (fst (switch_processPacket ids_demo 0 plain_base True ''p1'' bcast_packet
                     plain_links 0 (Some Map.empty)))) = [(''h2'', ''eth0'')] \<and>
   resolveVlan bcast_packet (hd (d_interfaces plain_base)) = Some 1 \<and>
   \<not> list_ex (\<lambda>iface. admissible_spec iface 1) (d_interfaces plain_base)"
  by code_simp

lemma learnMacAddress_entry:
  "\<exists>e. fst (learnMacAddress gen k b mac iid v time t) (macTableKey mac v) = Some e \<and>
        m_interfaceId e = iid"
  by (auto simp: learnMacAddress_def Let_def generatePacketId_def)

lemma learnMacAddress_hops:
  "fst (snd (learnMacAddress gen k b mac iid v time t)) \<noteq> [] \<longleftrightarrow>
     (t (macTableKey mac v) = None \<or> m_interfaceId (the (t (macTableKey mac v))) \<noteq> iid)"
  by (auto simp: learnMacAddress_def Let_def generatePacketId_def)

lemma learnMacAddress_hops_learn:
  "list_all (\<lambda>h. h_action h = Learn) (fst (snd (learnMacAddress gen k b mac iid v time t)))"
  by (auto simp: learnMacAddress_def Let_def generatePacketId_def)

lemma learnMacAddress_known:
  assumes "t (macTableKey mac v) = Some e" and "m_interfaceId e = iid"
  shows "learnMacAddress gen k b mac iid v time t = (t, [], k)"
  using assms by (simp add: learnMacAddress_def Let_def)

lemma forward_flood_no_learn:
  "\<not> has_learn (snd (forwardToKnownPort b eid packet iid v lnks time))"
  "\<not> has_learn (snd (floodPacket b packet iid v lnks time isB))"
  by (auto simp: has_learn_def forwardToKnownPort_def floodPacket_def Let_def
        split: option.splits)

lemma has_learn_append [simp]: "has_learn (xs @ ys) = (has_learn xs \<or> has_learn ys)"
  by (simp add: has_learn_def)

lemma has_learn_all:
  "list_all (\<lambda>h. h_action h = Learn) xs \<Longrightarrow> has_learn xs = (xs \<noteq> [])"
  by (cases xs) (simp_all add: has_learn_def)

lemma switch_learning_step:
  assumes "getInterface b iid = Some ingress" and "resolveVlan packet ingress = Some v"
  shows "fst (snd (switch_processPacket gen k b True iid packet lnks time (Some t))) =
           Some (fst (learnMacAddress gen k b (p_srcMac packet) iid v time t))"
    and "snd (snd (switch_processPacket gen k b True iid packet lnks time (Some t))) =
           snd (snd (learnMacAddress gen k b (p_srcMac packet) iid v time t))"
    and "has_learn (dtrace (fst (switch_processPacket gen k b True iid packet lnks time (Some t)))) =
           (fst (snd (learnMacAddress gen k b (p_srcMac packet) iid v time t)) \<noteq> [])"
proof -
  show "fst (snd (switch_processPacket gen k b True iid packet lnks time (Some t))) =
           Some (fst (learnMacAddress gen k b (p_srcMac packet) iid v time t))"
    using assms by (simp add: switch_processPacket_def Let_def split_def)
  show "snd (snd (switch_processPacket gen k b True iid packet lnks time (Some t))) =
           snd (snd (learnMacAddress gen k b (p_srcMac packet) iid v time t))"
    using assms by (simp add: switch_processPacket_def Let_def split_def)
  have "has_learn (dtrace (fst (switch_processPacket gen k b True iid packet lnks time (Some t)))) =
          has_learn (fst (snd (learnMacAddress gen k b (p_srcMac packet) iid v time t)))"
    using assms forward_flood_no_learn
    by (simp add: switch_processPacket_def Let_def split_def has_learn_def)
  then show "has_learn (dtrace (fst (switch_processPacket gen k b True iid packet lnks time (Some t)))) =
           (fst (snd (learnMacAddress gen k b (p_srcMac packet) iid v time t)) \<noteq> [])"
    by (simp add: has_learn_all [OF learnMacAddress_hops_learn])
qed

text \<open>
  C8. A switch with MAC learning on, called with its MAC table on a packet with source
  MAC \<open>M\<close> that arrives on its interface \<open>I\<close> and resolves to VLAN \<open>V\<close>, leaves the table
  with an entry under the key of \<open>(M, V)\<close> whose interface is \<open>I\<close>; the trace has a
  \<open>learn\<close> hop iff the table had no entry under that key or one with another interface;
  and a second packet with the same source MAC and VLAN on the same interface leaves the
  whole table as it is and has no \<open>learn\<close> hop.
\<close>

theorem switch_mac_learning:
  assumes "getInterface b iid = Some ingress" and "resolveVlan packet ingress = Some v"
    and "p_srcMac packet2 = p_srcMac packet" and "resolveVlan packet2 ingress = Some v"
  shows "\<exists>t' e.
           fst (snd (switch_processPacket gen k b True iid packet lnks time (Some t))) = Some t' \<and>
           t' (macTableKey (p_srcMac packet) v) = Some e \<and> m_interfaceId e = iid \<and>
           (has_learn (dtrace (fst (switch_processPacket gen k b True iid packet lnks time (Some t))))
              \<longleftrightarrow> (t (macTableKey (p_srcMac packet) v) = None \<or>
                   m_interfaceId (the (t (macTableKey (p_srcMac packet) v))) \<noteq> iid)) \<and>
           fst (snd (switch_processPacket gen k2 b True iid packet2 lnks time2 (Some t'))) = Some t' \<and>
           \<not> has_learn (dtrace (fst (switch_processPacket gen k2 b True iid packet2 lnks time2
                                       (Some t'))))"
proof -
  define t' where "t' = fst (learnMacAddress gen k b (p_srcMac packet) iid v time t)"
  obtain e where e: "t' (macTableKey (p_srcMac packet) v) = Some e" "m_interfaceId e = iid"
    unfolding t'_def using learnMacAddress_entry by blast
  have first: "fst (snd (switch_processPacket gen k b True iid packet lnks time (Some t))) = Some t'"
    unfolding t'_def by (rule switch_learning_step(1) [OF assms(1,2)])
  have lrn: "has_learn (dtrace (fst (switch_processPacket gen k b True iid packet lnks time (Some t))))
              \<longleftrightarrow> (t (macTableKey (p_srcMac packet) v) = None \<or>
                   m_interfaceId (the (t (macTableKey (p_srcMac packet) v))) \<noteq> iid)"
    by (simp add: switch_learning_step(3) [OF assms(1,2)] learnMacAddress_hops)
  have known: "learnMacAddress gen k2 b (p_srcMac packet2) iid v time2 t' = (t', [], k2)"
    using e assms(3) by (simp add: learnMacAddress_known)
  have second: "fst (snd (switch_processPacket gen k2 b True iid packet2 lnks time2 (Some t'))) = Some t'"
    by (simp add: switch_learning_step(1) [OF assms(1,4)] known)
  have quiet: "\<not> has_learn (dtrace (fst (switch_processPacket gen k2 b True iid packet2 lnks time2
                                       (Some t'))))"
    by (simp add: switch_learning_step(3) [OF assms(1,4)] known)
  from first e lrn second quiet show ?thesis by blast
qed

theorem switch_mac_learning_witness:
  "getInterface sw_base ''gi0/1'' \<noteq> None \<and>
   resolveVlan bcast_packet (hd (d_interfaces sw_base)) = Some 10 \<and>
   map_option m_interfaceId
     (the (fst (snd (switch_processPacket ids_demo 0 sw_base True ''gi0/1'' bcast_packet sw_links 0
                       (Some Map.empty)))) ''AA:BB:CC:DD:EE:FF-10'') = Some ''gi0/1'' \<and>
   has_learn (dtrace (fst (switch_processPacket ids_demo 0 sw_base True ''gi0/1'' bcast_packet
                             sw_links 0 (Some Map.empty))))"
proof -
  have h1: "getInterface sw_base ''gi0/1'' = Some (hd (d_interfaces sw_base))"
    by code_simp
  have h2: "resolveVlan bcast_packet (hd (d_interfaces sw_base)) = Some 10"
    by code_simp
  have key: "macTableKey (p_srcMac bcast_packet) 10 = ''AA:BB:CC:DD:EE:FF-10''"
    by code_simp
  from switch_mac_learning [OF h1 h2 refl h2, of ids_demo 0 sw_links 0 Map.empty 1 1]
  show ?thesis
    using h1 h2 key by auto
qed

section \<open>Router: directly connected lookup\<close>

lemma mask_and_eq:
  "((a :: 32 word) AND push_bit n (- 1) = b AND push_bit n (- 1)) = (drop_bit n a = drop_bit n b)"
proof
  assume h: "a AND push_bit n (- 1) = b AND push_bit n (- 1)"
  show "drop_bit n a = drop_bit n b"
  proof (rule bit_eqI)
    fix j
    from h have "bit (a AND push_bit n (- 1)) (n + j) = bit (b AND push_bit n (- 1)) (n + j)"
      by simp
    then show "bit (drop_bit n a) j = bit (drop_bit n b) j"
      by (auto simp: bit_simps dest: bit_imp_le_length)
  qed
next
  assume h: "drop_bit n a = drop_bit n b"
  show "a AND push_bit n (- 1) = b AND push_bit n (- 1)"
  proof (rule bit_eqI)
    fix k
    show "bit (a AND push_bit n (- 1)) k = bit (b AND push_bit n (- 1)) k"
    proof (cases "n \<le> k")
      case True
      from h have "bit (drop_bit n a) (k - n) = bit (drop_bit n b) (k - n)" by simp
      with True show ?thesis by (simp add: bit_simps)
    next
      case False
      then show ?thesis by (simp add: bit_simps)
    qed
  qed
qed

lemma drop_bit_32_word: "drop_bit 32 (a :: 32 word) = 0"
  by (rule bit_eqI) (auto simp: bit_simps dest: bit_imp_le_length)

lemma prefixToMask_wf:
  "0 \<le> p \<Longrightarrow> p \<le> 32 \<Longrightarrow>
   (a AND prefixToMask (Some p) = b AND prefixToMask (Some p)) = cidr_contains (nat p) b a"
proof (cases "p = 0")
  case True
  then show ?thesis
    by (simp add: prefixToMask_def cidr_contains_def drop_bit_32_word)
next
  case False
  assume "0 \<le> p" "p \<le> 32"
  with False have "(32 - p) mod 32 = 32 - p \<or> p = 32"
    by (intro disjCI mod_pos_pos_trivial) auto
  with \<open>0 \<le> p\<close> have "nat ((32 - p) mod 32) = 32 - nat p"
    by (elim disjE) (simp_all only: nat_diff_distrib, simp_all)
  with False have "prefixToMask (Some p) = push_bit (32 - nat p) (- 1)"
    by (simp only: prefixToMask_def option.case if_False)
  then show ?thesis
    by (simp only: mask_and_eq cidr_contains_def)
qed

lemma ipInSubnet_cidr:
  "cidr_prefix c = Some p \<Longrightarrow> 0 \<le> p \<Longrightarrow> p \<le> 32 \<Longrightarrow>
   ipInSubnet ip c = cidr_contains (nat p) (ipToNumber (cidr_ip c)) (ipToNumber ip)"
  by (simp add: ipInSubnet_def Let_def prefixToMask_wf)

lemma findDirectRoute_loop_find:
  "findDirectRoute_loop b ifaces dIp iid lnks rp time =
     map_option
       (\<lambda>iface. (createForwardEvent (rp\<lparr> p_srcMac := i_mac iface \<rparr>)
                    (nodeId (the (findConnectedInterface b lnks (i_id iface))))
                    (interfaceId (the (findConnectedInterface b lnks (i_id iface)))),
                  createTraceHop b time (i_id iface) Route
                    (''Routing to directly connected network via '' @ i_id iface)
                    (rp\<lparr> p_srcMac := i_mac iface \<rparr>)))
       (find (direct_candidate b lnks iid dIp) ifaces)"
  by (induction ifaces)
    (auto simp: direct_candidate_def direct_candidate_spec_def Let_def split: option.splits)

lemma routerProcess_direct_find:
  "routerProcess_direct node ifaces iid dIp lnks rp time =
     map_option
       (\<lambda>iface. (\<lparr> ev_packet = rp\<lparr> p_srcMac := i_mac iface \<rparr>,
                    ev_nodeId = nodeId (the (getConnectedInterface lnks (n_id node) (i_id iface))),
                    ev_interfaceId =
                      interfaceId (the (getConnectedInterface lnks (n_id node) (i_id iface))) \<rparr>,
                  \<lparr> h_time = time, h_nodeId = n_id node, h_nodeLabel = n_label node,
                    h_interfaceId = i_id iface, h_action = Route,
                    h_reason = ''Routing to directly connected network via '' @ i_id iface,
                    h_packet = rp\<lparr> p_srcMac := i_mac iface \<rparr> \<rparr>))
       (find (octet_candidate node lnks iid dIp) ifaces)"
  by (induction ifaces)
    (auto simp: octet_candidate_def cidr_ip_def cidr_prefix_def Let_def split: option.splits)

lemma router_direct_events:
  assumes "getInterface b iid = Some ingress" and "\<not> isPacketForRouter b packet"
    and "1 < p_ttl packet" and "p_dstIp packet = Some dIp" and "dIp \<noteq> []"
    and "find (direct_candidate b lnks iid dIp) (d_interfaces b) = Some iface"
  shows "events (router_processPacket b routes iid packet lnks time) =
           [createForwardEvent (packet\<lparr> p_ttl := p_ttl packet - 1, p_srcMac := i_mac iface \<rparr>)
              (nodeId (the (findConnectedInterface b lnks (i_id iface))))
              (interfaceId (the (findConnectedInterface b lnks (i_id iface))))]"
  using assms
  by (simp add: router_processPacket_def Let_def truthy_str_def findDirectRoute_def
        findDirectRoute_loop_find)

text \<open>
  C6 (amended). For a router, an ingress interface of it and a packet with a destination
  address that is none of the router's addresses and a TTL above 1: the lookup of
  \<open>RouterDevice\<close> selects the first interface, in configured order, that is not the
  ingress, has an address, contains the destination in its subnet and has a peer on its
  link; no other interface is chosen; the one event of the call carries the packet with
  the TTL decremented and the source MAC of that interface. Containment is \<open>ipInSubnet\<close>,
  which for a prefix length from 0 to 32 compares exactly the leading prefix bits. The
  lookup of the functional \<open>routerProcess\<close> selects likewise, with the comparison of the
  leading \<open>floor(prefix / 8)\<close> dotted parts in the place of containment.
\<close>

theorem router_direct_lookup:
  assumes "getInterface b iid = Some ingress" and "\<not> isPacketForRouter b packet"
    and "1 < p_ttl packet" and "p_dstIp packet = Some dIp" and "dIp \<noteq> []"
  shows "(case find (direct_candidate b lnks iid dIp) (d_interfaces b) of
            None \<Rightarrow> findDirectRoute b dIp iid lnks rp time = None
          | Some iface \<Rightarrow>
              map_option (\<lambda>(ev, hop). (ev_packet ev, h_interfaceId hop))
                (findDirectRoute b dIp iid lnks rp time) =
                Some (rp\<lparr> p_srcMac := i_mac iface \<rparr>, i_id iface) \<and>
              events (router_processPacket b routes iid packet lnks time) =
                [createForwardEvent
                   (packet\<lparr> p_ttl := p_ttl packet - 1, p_srcMac := i_mac iface \<rparr>)
                   (nodeId (the (findConnectedInterface b lnks (i_id iface))))
                   (interfaceId (the (findConnectedInterface b lnks (i_id iface))))]) \<and>
         (\<forall>c p. cidr_prefix c = Some p \<and> 0 \<le> p \<and> p \<le> 32 \<longrightarrow>
            ipInSubnet dIp c = cidr_contains (nat p) (ipToNumber (cidr_ip c)) (ipToNumber dIp)) \<and>
         map_option (\<lambda>(ev, hop). (ev_packet ev, h_interfaceId hop))
           (routerProcess_direct node (n_interfaces node) iid dIp lnks rp time) =
           map_option (\<lambda>iface. (rp\<lparr> p_srcMac := i_mac iface \<rparr>, i_id iface))
             (find (octet_candidate node lnks iid dIp) (n_interfaces node))"
proof -
  have a: "(case find (direct_candidate b lnks iid dIp) (d_interfaces b) of
            None \<Rightarrow> findDirectRoute b dIp iid lnks rp time = None
          | Some iface \<Rightarrow>
              map_option (\<lambda>(ev, hop). (ev_packet ev, h_interfaceId hop))
                (findDirectRoute b dIp iid lnks rp time) =
                Some (rp\<lparr> p_srcMac := i_mac iface \<rparr>, i_id iface) \<and>
              events (router_processPacket b routes iid packet lnks time) =
                [createForwardEvent
                   (packet\<lparr> p_ttl := p_ttl packet - 1, p_srcMac := i_mac iface \<rparr>)
                   (nodeId (the (findConnectedInterface b lnks (i_id iface))))
                   (interfaceId (the (findConnectedInterface b lnks (i_id iface))))])"
  proof (cases "find (direct_candidate b lnks iid dIp) (d_interfaces b)")
    case None
    then show ?thesis
      by (simp add: findDirectRoute_def findDirectRoute_loop_find)
  next
    case (Some iface)
    from router_direct_events [OF assms this] Some show ?thesis
      by (simp add: findDirectRoute_def findDirectRoute_loop_find)
  qed
  have c: "map_option (\<lambda>(ev, hop). (ev_packet ev, h_interfaceId hop))
           (routerProcess_direct node (n_interfaces node) iid dIp lnks rp time) =
           map_option (\<lambda>iface. (rp\<lparr> p_srcMac := i_mac iface \<rparr>, i_id iface))
             (find (octet_candidate node lnks iid dIp) (n_interfaces node))"
    by (simp add: routerProcess_direct_find option.map_comp comp_def)
  from a c show ?thesis
    using ipInSubnet_cidr by blast
qed

theorem router_direct_lookup_witness:
  "getInterface rt_base ''eth0'' \<noteq> None \<and> \<not> isPacketForRouter rt_base rt_packet \<and>
   1 < p_ttl rt_packet \<and> p_dstIp rt_packet = Some ''10.0.1.50'' \<and>
   map (\<lambda>ev. (ev_nodeId ev, p_srcMac (ev_packet ev), p_ttl (ev_packet ev)))
     (events (router_processPacket rt_base [] ''eth0'' rt_packet rt_links 1)) =
     [(''b'', ''02:00:00:00:01:02'', 63)]"
proof -
  have h1: "getInterface rt_base ''eth0'' = Some (hd rt_ifaces)"
    by code_simp
  have h2: "\<not> isPacketForRouter rt_base rt_packet"
    by code_simp
  have h3: "1 < p_ttl rt_packet" and h4: "p_dstIp rt_packet = Some ''10.0.1.50''"
    by code_simp+
  have h5: "''10.0.1.50'' \<noteq> []"
    by simp
  have f: "find (direct_candidate rt_base rt_links ''eth0'' ''10.0.1.50'') (d_interfaces rt_base) =
           Some (rt_ifaces ! 2)"
    by code_simp
  have m: "i_mac (rt_ifaces ! 2) = ''02:00:00:00:01:02''"
    and t: "p_ttl rt_packet - 1 = 63"
    and n: "nodeId (the (findConnectedInterface rt_base rt_links (i_id (rt_ifaces ! 2)))) = ''b''"
    by code_simp+
  from router_direct_lookup [OF h1 h2 h3 h4 h5, of rt_links rt_packet 1 "[]" rt_node25]
  have "events (router_processPacket rt_base [] ''eth0'' rt_packet rt_links 1) =
          [createForwardEvent
             (rt_packet\<lparr> p_ttl := p_ttl rt_packet - 1, p_srcMac := i_mac (rt_ifaces ! 2) \<rparr>)
             (nodeId (the (findConnectedInterface rt_base rt_links (i_id (rt_ifaces ! 2)))))
             (interfaceId (the (findConnectedInterface rt_base rt_links (i_id (rt_ifaces ! 2)))))]"
    by (simp add: f)
  then show ?thesis
    using h1 h2 h3 h4 m t n by simp
qed

text \<open>
  The claim as worded fails twice. In \<open>RouterDevice\<close> the first interface that is not the
  ingress and contains 10.0.1.50 is \<open>eth1\<close>, which has no link, and the lookup goes on
  to \<open>eth2\<close>. In \<open>routerProcess\<close> the interface 10.0.0.1/25 is chosen for 10.0.0.200,
  which its subnet does not contain.
\<close>

theorem router_direct_lookup_counterexample:
  "map_option i_id (find (direct_candidate_spec ''eth0'' ''10.0.1.50'') (d_interfaces rt_base)) =
     Some ''eth1'' \<and>
   map_option (\<lambda>(ev, hop). (ev_nodeId ev, p_srcMac (ev_packet ev), h_interfaceId hop))
     (findDirectRoute rt_base ''10.0.1.50'' ''eth0'' rt_links rt_packet 1) =
     Some (''b'', ''02:00:00:00:01:02'', ''eth2'') \<and>
   \<not> ipInSubnet ''10.0.0.200'' ''10.0.0.1/25'' \<and>
   map_option (\<lambda>(ev, hop). h_interfaceId hop)
     (routerProcess_direct rt_node25 (n_interfaces rt_node25) ''eth0'' ''10.0.0.200'' rt_links
        rt_packet 1) = Some ''eth2''"
  by code_simp

section \<open>Simulator driver\<close>

lemma fold_enqueue_dequeued [simp]: "q_dequeued (fold enqueue evs q) = q_dequeued q"
  by (induction evs arbitrary: q) (simp_all add: enqueue_def)

lemma processAtDevice_queue [simp]:
  "s_eventQueue (snd (processAtDevice gen s device iid packet time)) = s_eventQueue s"
  by (cases device) (simp_all add: processAtDevice_def Let_def split_def)

lemma dequeue_nonempty:
  "\<not> isEmpty q \<Longrightarrow>
   \<exists>event q1. dequeue q = (Some event, q1) \<and> q_dequeued q1 = Suc (q_dequeued q)"
  by (cases "q_queue q") (simp_all add: isEmpty_def dequeue_def)

lemma loop_body_ended:
  assumes "\<not> isEmpty (s_eventQueue s)" and "loop_body gen s visited = Inl (out, s')"
  shows "(\<exists>r. out = Inr r \<and> (loop r \<or> delivered r)) \<and>
         q_dequeued (s_eventQueue s') = Suc (q_dequeued (s_eventQueue s))"
proof -
  from dequeue_nonempty [OF assms(1)] obtain event q1
    where d: "dequeue (s_eventQueue s) = (Some event, q1)"
      and n: "q_dequeued q1 = Suc (q_dequeued (s_eventQueue s))"
    by blast
  from assms(2) show ?thesis
    unfolding loop_body_def d
    by (clarsimp simp: Let_def split_def tick_def n split: if_split_asm option.split_asm)
qed

lemma loop_body_goes_on:
  assumes "\<not> isEmpty (s_eventQueue s)" and "loop_body gen s visited = Inr (s', visited')"
  shows "q_dequeued (s_eventQueue s') = Suc (q_dequeued (s_eventQueue s))"
proof -
  from dequeue_nonempty [OF assms(1)] obtain event q1
    where d: "dequeue (s_eventQueue s) = (Some event, q1)"
      and n: "q_dequeued q1 = Suc (q_dequeued (s_eventQueue s))"
    by blast
  from assms(2) show ?thesis
    unfolding loop_body_def d
    by (clarsimp simp: Let_def split_def tick_def n split: if_split_asm option.split_asm)
qed

lemma main_loop_inv:
  "case main_loop gen maxH s hops visited of
     (out, hops', s') \<Rightarrow>
       hops \<le> hops' \<and> (hops \<le> maxH \<longrightarrow> hops' \<le> maxH) \<and>
       q_dequeued (s_eventQueue s') = q_dequeued (s_eventQueue s) + (hops' - hops) \<and>
       (\<forall>e. out = Some e \<longrightarrow> (\<exists>r. e = Inr r \<and> (loop r \<or> delivered r)))"
proof (induction gen maxH s hops visited rule: main_loop.induct)
  case (1 gen maxH s hops visited)
  show ?case
  proof (cases "\<not> isEmpty (s_eventQueue s) \<and> hops < maxH")
    case False
    then show ?thesis
      by (subst main_loop.simps) auto
  next
    case True
    show ?thesis
    proof (cases "loop_body gen s visited")
      case (Inl fin)
      obtain out s' where fin: "fin = (out, s')" by (cases fin)
      from loop_body_ended [of s gen visited out s'] True Inl fin
      have "(\<exists>r. out = Inr r \<and> (loop r \<or> delivered r)) \<and>
            q_dequeued (s_eventQueue s') = Suc (q_dequeued (s_eventQueue s))"
        by simp
      with True Inl fin show ?thesis
        by (subst main_loop.simps) auto
    next
      case (Inr cont)
      obtain s' visited' where cont: "cont = (s', visited')" by (cases cont)
      from loop_body_goes_on [of s gen visited s' visited'] True Inr cont
      have dq: "q_dequeued (s_eventQueue s') = Suc (q_dequeued (s_eventQueue s))"
        by simp
      have ih: "case main_loop gen maxH s' (hops + 1) visited' of
          (out, hops', s'') \<Rightarrow>
            hops + 1 \<le> hops' \<and> (hops + 1 \<le> maxH \<longrightarrow> hops' \<le> maxH) \<and>
            q_dequeued (s_eventQueue s'') = q_dequeued (s_eventQueue s') + (hops' - (hops + 1)) \<and>
            (\<forall>e. out = Some e \<longrightarrow> (\<exists>r. e = Inr r \<and> (loop r \<or> delivered r)))"
        using "1.IH" [OF True Inr cont [symmetric]] by simp
      have unfold: "main_loop gen maxH s hops visited = main_loop gen maxH s' (hops + 1) visited'"
        using True Inr cont by (subst main_loop.simps) simp
      show ?thesis
        unfolding unfold using ih dq True
        by (auto split: prod.splits)
    qed
  qed
qed

lemma run_loop_result:
  "\<exists>r. fst (run_loop gen s) = Inr r \<and>
        q_dequeued (s_eventQueue (snd (run_loop gen s))) \<le>
          q_dequeued (s_eventQueue s) + maxHops (s_options s) \<and>
        (\<not> delivered r \<and> \<not> loop r \<longrightarrow>
           blocked r = (trace r \<noteq> [] \<and>
             (h_action (last (trace r)) = AclDeny \<or> h_action (last (trace r)) = Drop)))"
proof -
  obtain out hops' s' where m: "main_loop gen (maxHops (s_options s)) s 0 {} = (out, hops', s')"
    by (cases "main_loop gen (maxHops (s_options s)) s 0 {}") auto
  from main_loop_inv [where gen = gen and maxH = "maxHops (s_options s)" and s = s and hops = 0
      and visited = "{}"] m
  have b: "hops' \<le> maxHops (s_options s)"
    and q: "q_dequeued (s_eventQueue s') = q_dequeued (s_eventQueue s) + hops'"
    and e: "\<forall>e. out = Some e \<longrightarrow> (\<exists>r. e = Inr r \<and> (loop r \<or> delivered r))"
    by simp_all
  show ?thesis
  proof (cases out)
    case None
    with m b q show ?thesis
      by (simp add: run_loop_def conclude_def Let_def)
  next
    case (Some ended)
    with e obtain r where "ended = Inr r" "loop r \<or> delivered r" by blast
    with Some m b q show ?thesis
      by (auto simp: run_loop_def)
  qed
qed

lemma clear_dequeued [simp]: "q_dequeued (clear q) = q_dequeued q"
  by (simp add: clear_def)

lemma simulate_cases:
  "(\<exists>rsn. simulate gen s0 packetSpec =
            (Inr (failure rsn), s0\<lparr> s_trace := [], s_eventQueue := clear (s_eventQueue s0) \<rparr>)) \<or>
   (\<exists>s. simulate gen s0 packetSpec = run_loop gen s \<and>
        s_options s = s_options s0 \<and>
        q_dequeued (s_eventQueue s) = q_dequeued (s_eventQueue s0))"
proof -
  let ?s = "s0\<lparr> s_trace := [], s_eventQueue := clear (s_eventQueue s0) \<rparr>"
  have fail: "?thesis" if "simulate gen s0 packetSpec = (Inr (failure rsn), ?s)" for rsn
    using that by blast
  show ?thesis
  proof (cases "getNodeById (nodes (s_topology s0)) (ps_srcNodeId packetSpec)")
    case None
    then show ?thesis
      by (intro fail) (simp add: simulate_def)
  next
    case src: (Some srcNode)
    show ?thesis
    proof (cases "getNodeById (nodes (s_topology s0)) (ps_dstNodeId packetSpec)")
      case None
      with src show ?thesis
        by (intro fail) (simp add: simulate_def)
    next
      case dst: (Some dstNode)
      show ?thesis
      proof (cases "isReachable (s_graphAnalyzer s0) (n_id srcNode) (n_id dstNode)")
        case False
        with src dst show ?thesis
          by (intro fail) (simp add: simulate_def)
      next
        case reach: True
        show ?thesis
        proof (cases "getDevice ?s (n_id srcNode)")
          case None
          with src dst reach show ?thesis
            by (intro fail) (simp add: simulate_def)
        next
          case dev: (Some srcDevice)
          show ?thesis
          proof (cases "isHostDevice srcDevice")
            case False
            with src dst reach dev show ?thesis
              by (intro fail) (simp add: simulate_def Let_def)
          next
            case True
            show ?thesis
              apply (rule disjI2)
              apply (simp add: simulate_def Let_def split_def src dst reach dev True
                       split del: if_split)
              apply (rule exI, rule conjI, rule refl)
              apply (simp split del: if_split)
              done
          qed
        qed
      qed
    qed
  qed
qed

text \<open>
  C3. Every call of \<open>simulate\<close> returns a result, and between its start and its return
  the queue hands out at most \<open>maxHops\<close> events.
\<close>

theorem simulate_returns_within_maxHops:
  "\<exists>r. fst (simulate gen s0 packetSpec) = Inr r \<and>
        q_dequeued (s_eventQueue (snd (simulate gen s0 packetSpec))) \<le>
          q_dequeued (s_eventQueue s0) + maxHops (s_options s0)"
proof -
  from simulate_cases [of gen s0 packetSpec] show ?thesis
  proof
    assume "\<exists>rsn. simulate gen s0 packetSpec =
            (Inr (failure rsn), s0\<lparr> s_trace := [], s_eventQueue := clear (s_eventQueue s0) \<rparr>)"
    then show ?thesis by auto
  next
    assume "\<exists>s. simulate gen s0 packetSpec = run_loop gen s \<and>
        s_options s = s_options s0 \<and>
        q_dequeued (s_eventQueue s) = q_dequeued (s_eventQueue s0)"
    then obtain s where s: "simulate gen s0 packetSpec = run_loop gen s"
      "s_options s = s_options s0" "q_dequeued (s_eventQueue s) = q_dequeued (s_eventQueue s0)"
      by blast
    from run_loop_result [of gen s] s show ?thesis by auto
  qed
qed


theorem simulate_returns_within_maxHops_witness:
  "(\<exists>r. fst (simulate ids_demo (new_Simulator topo_router DEFAULT_SIM_OPTIONS) spec_self) = Inr r) \<and>
   q_dequeued (s_eventQueue
     (snd (simulate ids_demo (new_Simulator topo_router DEFAULT_SIM_OPTIONS) spec_self))) \<le> 100 \<and>
   q_dequeued (s_eventQueue
     (snd (simulate ids_demo (new_Simulator topo_router DEFAULT_SIM_OPTIONS) spec_self))) = 1"
proof -
  have z: "q_dequeued (s_eventQueue (new_Simulator topo_router DEFAULT_SIM_OPTIONS)) = 0"
    and m: "maxHops (s_options (new_Simulator topo_router DEFAULT_SIM_OPTIONS)) = 100"
    by (simp_all add: new_Simulator_def new_EventQueue_def DEFAULT_SIM_OPTIONS_def)
  have one: "q_dequeued (s_eventQueue
     (snd (simulate ids_demo (new_Simulator topo_router DEFAULT_SIM_OPTIONS) spec_self))) = 1"
    by code_simp
  from simulate_returns_within_maxHops
    [of ids_demo "new_Simulator topo_router DEFAULT_SIM_OPTIONS" spec_self]
  show ?thesis
    using z m one by auto
qed



lemma setNode_edges [simp]: "g_edges (setNode v g) = g_edges g"
  by (simp add: setNode_def)

lemma fold_setNode_edges [simp]:
  "g_edges (fold (\<lambda>node g. setNode (n_id node) g) ns g) = g_edges g"
  by (induction ns arbitrary: g) simp_all

lemma fold_setEdge_edges:
  "set (g_edges (fold (\<lambda>link g. setEdge (link_sourceNodeId link) (link_targetNodeId link) g)
                   ls g)) \<subseteq>
   set (g_edges g) \<union> {(''undefined'', ''undefined'')}"
proof (induction ls arbitrary: g)
  case Nil
  show ?case by auto
next
  case (Cons l ls)
  have "set (g_edges (setEdge (link_sourceNodeId l) (link_targetNodeId l) g)) \<subseteq>
        set (g_edges g) \<union> {(''undefined'', ''undefined'')}"
    by (auto simp: setEdge_def Let_def link_sourceNodeId_def link_targetNodeId_def js_text_def)
  with Cons [of "setEdge (link_sourceNodeId l) (link_targetNodeId l) g"] show ?case
    by auto
qed

lemma buildGraph_edges:
  "set (g_edges (buildGraph topology)) \<subseteq> {(''undefined'', ''undefined'')}"
  using fold_setEdge_edges
    [of "links topology" "fold (\<lambda>node g. setNode (n_id node) g) (nodes topology) new_Graph"]
  by (simp add: buildGraph_def Let_def new_Graph_def)

lemma trancl_loop_only:
  assumes "R \<subseteq> {(u, u)}" and "(s, t) \<in> (R \<union> R\<inverse>)\<^sup>+"
  shows "s = t"
  using assms(2)
proof (induction rule: trancl.induct)
  case (r_into_trancl a b)
  with assms(1) show ?case by auto
next
  case (trancl_into_trancl a b c)
  with assms(1) show ?case by auto
qed

lemma isReachable_same_node:
  "isReachable (new_GraphAnalyzer topology) s t \<Longrightarrow> s = t"
  using trancl_loop_only [OF buildGraph_edges, of s t topology]
  by (auto simp: isReachable_def new_GraphAnalyzer_def graph_path_exists_def)

lemma getNodeById_id: "getNodeById ns nid = Some n \<Longrightarrow> n_id n = nid"
  by (auto simp: getNodeById_def find_Some_iff)

lemma simulate_distinct_nodes:
  assumes "getNodeById (nodes topology) (ps_srcNodeId packetSpec) = Some srcNode"
    and "getNodeById (nodes topology) (ps_dstNodeId packetSpec) = Some dstNode"
    and "ps_srcNodeId packetSpec \<noteq> ps_dstNodeId packetSpec"
  shows "fst (simulate gen (new_Simulator topology opts) packetSpec) =
           Inr (failure (''No path exists between '' @ n_label srcNode @ '' and '' @
                         n_label dstNode))"
proof -
  from assms have "n_id srcNode \<noteq> n_id dstNode"
    by (auto dest!: getNodeById_id)
  then have "\<not> isReachable (new_GraphAnalyzer topology) (n_id srcNode) (n_id dstNode)"
    using isReachable_same_node by blast
  with assms(1,2) show ?thesis
    by (simp add: simulate_def new_Simulator_def)
qed

text \<open>
  C1. Two hosts joined by a link are in one connected component of the node/link graph,
  and \<open>simulate\<close> still fails fast with \<open>No path exists between A and B\<close> and an empty
  trace: the analyzer's graph has no edge between nodes of the topology, since
  \<open>buildGraph\<close> reads two properties that no link has. By \<open>simulate_distinct_nodes\<close> this
  is so for every two distinct nodes of every topology.
\<close>

theorem simulate_linked_hosts_no_path:
  "directly_linked topo_pair ''a'' ''b'' \<and>
   isHostDevice (createFromSimNode (hd (nodes topo_pair))) \<and>
   result_summary (fst (simulate ids_demo (new_Simulator topo_pair DEFAULT_SIM_OPTIONS) spec_pair)) =
     Inr (False, False, False, False, [], ''No path exists between A and B'')"
  by code_simp

lemma linked_same_component:
  "directly_linked topology a b \<Longrightarrow> same_component topology a b"
  by (auto simp: same_component_def)

end
